theory Spec2Isabelle
  imports Complex_Main "HOL-Library.Word"
begin

section \<open>JavaScript values as the two scripts use them\<close>

text \<open>
  The scripts \<^verbatim>\<open>search.js\<close> (results and thread views) and \<^verbatim>\<open>chat.js\<close> (chat
  assistant) consume JSON answers of the backend. A JavaScript string is a sequence of
  16-bit code units; \<open>js\<close> turns a literal of the theory (one byte per character, all
  of them below 256) into the string with the same code units. A number is modelled by
  its exact value, a rational: JSON has no \<^verbatim>\<open>NaN\<close>, and a literal that is not the
  value of a double (too large, or with more digits than a double holds) is outside the
  model.
\<close>

type_synonym jsstring = "16 word list"

definition js :: "string \<Rightarrow> jsstring" where
  "js s = map of_char s"

datatype jsval =
    JUndefined
  | JNull
  | JBool bool
  | JNum rat
  | JStr jsstring
  | JArr "jsval list"
  | JObj "(jsstring \<times> jsval) list"

text \<open>
  An exception value: \<^verbatim>\<open>new Error(message)\<close>, or a \<^verbatim>\<open>TypeError\<close>,
  \<^verbatim>\<open>SyntaxError\<close> or \<^verbatim>\<open>URIError\<close> of the engine, each with its message.
\<close>

datatype js_error =
    Error jsstring
  | TypeError jsstring
  | SyntaxError jsstring
  | URIError jsstring

text \<open>
  What the engine decides and the scripts do not: the text of a number that is not a
  small integer (\<^verbatim>\<open>Number.prototype.toString\<close> prints the shortest decimal that
  reads back as the same double), the message of the \<^verbatim>\<open>TypeError\<close> raised on a
  property of \<^verbatim>\<open>null\<close> or on a missing method, the message of the \<^verbatim>\<open>URIError\<close> of
  \<^verbatim>\<open>encodeURIComponent\<close>, the date formatting of \<^verbatim>\<open>toLocaleString\<close> (\<open>None\<close> for a
  value that \<^verbatim>\<open>new Date\<close> cannot parse), the identifiers minted by
  \<^verbatim>\<open>crypto.randomUUID\<close> or \<^verbatim>\<open>Math.random().toString(36)\<close> (digits, letters and
  hyphens, so literals of the theory), and whether \<^verbatim>\<open>localStorage.setItem\<close> accepts a
  write.
\<close>

record engine =
  numberText :: "rat \<Rightarrow> string"
  typeErrorMessage :: "string \<Rightarrow> jsstring"
  uriErrorMessage :: jsstring
  localeDate :: "jsval \<Rightarrow> jsstring option"
  randomUUID :: "nat \<Rightarrow> string"
  storageAccepts :: "(jsstring \<times> jsval) list \<Rightarrow> jsstring \<Rightarrow> jsval \<Rightarrow> bool"

text \<open>\<^verbatim>\<open>err.message\<close>, and \<^verbatim>\<open>err.message || String(err)\<close>.\<close>

fun message :: "js_error \<Rightarrow> jsstring" where
  "message (Error m) = m"
| "message (TypeError m) = m"
| "message (SyntaxError m) = m"
| "message (URIError m) = m"

fun error_name :: "js_error \<Rightarrow> jsstring" where
  "error_name (Error m) = js ''Error''"
| "error_name (TypeError m) = js ''TypeError''"
| "error_name (SyntaxError m) = js ''SyntaxError''"
| "error_name (URIError m) = js ''URIError''"

definition error_text :: "js_error \<Rightarrow> jsstring" where
  "error_text err = (if message err \<noteq> [] then message err else error_name err)"

text \<open>The settled state of a promise; \<open>Pending\<close> is a promise that never settles.\<close>

datatype 'a outcome = Fulfilled 'a | Rejected js_error | Pending

subsection \<open>Strings\<close>

text \<open>
  White space, as \<^verbatim>\<open>trim()\<close> strips it and \<^verbatim>\<open>\s\<close> matches it: tab, line feed,
  vertical tab, form feed, carriage return, space, no-break space, U+1680, U+2000 to
  U+200A, the line and paragraph separators U+2028 and U+2029, U+202F, U+205F, U+3000
  and the byte order mark U+FEFF.
\<close>

definition is_space :: "16 word \<Rightarrow> bool" where
  "is_space c \<longleftrightarrow>
     c \<in> set [0x09, 0x0A, 0x0B, 0x0C, 0x0D, 0x20, 0xA0, 0x1680,
               0x2000, 0x2001, 0x2002, 0x2003, 0x2004, 0x2005, 0x2006, 0x2007, 0x2008,
               0x2009, 0x200A, 0x2028, 0x2029, 0x202F, 0x205F, 0x3000, 0xFEFF]"

text \<open>\<^verbatim>\<open>s.trim()\<close>\<close>

definition trim :: "jsstring \<Rightarrow> jsstring" where
  "trim s = rev (dropWhile is_space (rev (dropWhile is_space s)))"

text \<open>\<^verbatim>\<open>xs.join(sep)\<close> on strings\<close>

fun join :: "'a list \<Rightarrow> 'a list list \<Rightarrow> 'a list" where
  "join sep [] = []"
| "join sep [x] = x"
| "join sep (x # y # ys) = x @ sep @ join sep (y # ys)"

text \<open>
  \<^verbatim>\<open>s.split(/\s+/)\<close>: the pieces between the maximal runs of white space. The empty
  string gives one empty piece, and white space at either end gives an empty piece there.
\<close>

function split_ws :: "jsstring \<Rightarrow> jsstring list" where
  "split_ws s =
     (let w = takeWhile (\<lambda>c. \<not> is_space c) s;
          rest = dropWhile (\<lambda>c. \<not> is_space c) s
      in if rest = [] then [w] else w # split_ws (dropWhile is_space rest))"
  by pat_completeness auto
termination
proof (relation "measure length", goal_cases)
  case 1
  show ?case by simp
next
  case (2 s w rest)
  have "length (dropWhile is_space rest) \<le> length (tl rest)"
  proof (cases rest)
    case Nil
    with 2 show ?thesis by simp
  next
    case (Cons c cs)
    from 2 Cons have "dropWhile (\<lambda>c. \<not> is_space c) s \<noteq> []"
      by simp
    from hd_dropWhile [OF this] 2 Cons have "is_space c"
      by (metis list.sel(1))
    with Cons show ?thesis by (simp add: length_dropWhile_le)
  qed
  moreover have "length (tl rest) < length rest"
    using 2 by (cases rest) auto
  moreover have "length rest \<le> length s"
    using 2 by (simp add: length_dropWhile_le)
  ultimately show ?case by simp
qed

declare split_ws.simps [simp del]

text \<open>The decimal digits of a natural number.\<close>

function decimal :: "nat \<Rightarrow> string" where
  "decimal n =
     (if n < 10 then [''0123456789'' ! n]
      else decimal (n div 10) @ [''0123456789'' ! (n mod 10)])"
  by pat_completeness auto
termination
  by (relation "measure id") auto

declare decimal.simps [simp del]

definition decimal_int :: "int \<Rightarrow> string" where
  "decimal_int i = (if i < 0 then CHR ''-'' # decimal (nat (- i)) else decimal (nat i))"

text \<open>
  \<^verbatim>\<open>String(x)\<close> of a number: the decimal digits for an integer of magnitude at most
  \<open>2^53\<close> (every such integer is a double and prints as itself), the engine's text
  otherwise.
\<close>

definition NumberToString :: "engine \<Rightarrow> rat \<Rightarrow> string" where
  "NumberToString e x =
     (if of_int \<lfloor>x\<rfloor> = x \<and> \<bar>x\<bar> \<le> 2 ^ 53 then decimal_int \<lfloor>x\<rfloor> else numberText e x)"

subsection \<open>Values\<close>

text \<open>Truthiness: what \<^verbatim>\<open>if (v)\<close>, \<^verbatim>\<open>!v\<close>, \<^verbatim>\<open>a || b\<close> and \<^verbatim>\<open>c ? x : y\<close> test.\<close>

fun truthy :: "jsval \<Rightarrow> bool" where
  "truthy JUndefined = False"
| "truthy JNull = False"
| "truthy (JBool b) = b"
| "truthy (JNum x) = (x \<noteq> 0)"
| "truthy (JStr s) = (s \<noteq> [])"
| "truthy (JArr xs) = True"
| "truthy (JObj kvs) = True"

text \<open>\<^verbatim>\<open>a || b\<close>\<close>

definition or_else :: "jsval \<Rightarrow> jsval \<Rightarrow> jsval" where
  "or_else a b = (if truthy a then a else b)"

fun nullish :: "jsval \<Rightarrow> bool" where
  "nullish JUndefined = True"
| "nullish JNull = True"
| "nullish v = False"

fun isNumber :: "jsval \<Rightarrow> bool" where
  "isNumber (JNum x) = True"
| "isNumber v = False"

fun isArray :: "jsval \<Rightarrow> bool" where
  "isArray (JArr xs) = True"
| "isArray v = False"


fun elems :: "jsval \<Rightarrow> jsval list" where
  "elems (JArr xs) = xs"
| "elems v = []"

text \<open>
  \<^verbatim>\<open>v.p\<close> for the property names the scripts read from parsed JSON (none of them is a
  property of a prototype): the field of an object (the last one when the JSON text
  repeats a key), \<^verbatim>\<open>undefined\<close> on a missing field and on a string, number, boolean or
  array. On \<^verbatim>\<open>null\<close> and \<^verbatim>\<open>undefined\<close> the read throws; \<open>get\<close> is the checked read
  and \<open>field\<close> the read of a value already known not to be nullish.
\<close>

fun field :: "jsval \<Rightarrow> string \<Rightarrow> jsval" where
  "field (JObj kvs) p = (case map_of (rev kvs) (js p) of None \<Rightarrow> JUndefined | Some v \<Rightarrow> v)"
| "field v p = JUndefined"

definition get :: "engine \<Rightarrow> jsval \<Rightarrow> string \<Rightarrow> js_error + jsval" where
  "get e v p = (if nullish v then Inl (TypeError (typeErrorMessage e p)) else Inr (field v p))"

text \<open>
  \<^verbatim>\<open>String(v)\<close>, which is also what a template literal \<^verbatim>\<open>`${v}`\<close> inserts. An array
  prints its elements joined by commas, \<^verbatim>\<open>null\<close> and \<^verbatim>\<open>undefined\<close> elements as the
  empty string.
\<close>

fun ToString :: "engine \<Rightarrow> jsval \<Rightarrow> jsstring" where
  "ToString e JUndefined = js ''undefined''"
| "ToString e JNull = js ''null''"
| "ToString e (JBool b) = (if b then js ''true'' else js ''false'')"
| "ToString e (JNum x) = js (NumberToString e x)"
| "ToString e (JStr s) = s"
| "ToString e (JArr xs) = join (js '','') (map (\<lambda>x. if nullish x then [] else ToString e x) xs)"
| "ToString e (JObj kvs) = js ''[object Object]''"

text \<open>\<^verbatim>\<open>Math.round\<close>: the nearest integer, a tie going up.\<close>

definition Math_round :: "rat \<Rightarrow> rat" where
  "Math_round x = of_int \<lfloor>x + 1 / 2\<rfloor>"

subsection \<open>Helpers shared by both scripts\<close>

text \<open>
  \<^verbatim>\<open>const safe = (s="") => String(s).replace(/&/g,"&amp;").replace(/</g,"&lt;").replace(/>/g,"&gt;")\<close>
\<close>

definition replace_char :: "'a \<Rightarrow> 'a list \<Rightarrow> 'a list \<Rightarrow> 'a list" where
  "replace_char c r s = concat (map (\<lambda>d. if d = c then r else [d]) s)"

definition escape :: "jsstring \<Rightarrow> jsstring" where
  "escape s =
     replace_char (of_char CHR ''>'') (js ''&gt;'')
       (replace_char (of_char CHR ''<'') (js ''&lt;'')
         (replace_char (of_char CHR ''&'') (js ''&amp;'') s))"

definition safe :: "engine \<Rightarrow> jsval \<Rightarrow> jsstring" where
  "safe e s = escape (ToString e (if s = JUndefined then JStr [] else s))"

text \<open>
  \<^verbatim>\<open>encodeURIComponent(v)\<close>. The letters, digits and \<^verbatim>\<open>-_.!~*'()\<close> stay. Any other
  code point is written as the \<^verbatim>\<open>%XX\<close> of the bytes of its UTF-8 form, a pair of
  surrogates counting as one code point; a surrogate without its partner makes the call
  throw a \<^verbatim>\<open>URIError\<close>.
\<close>

definition is_high :: "16 word \<Rightarrow> bool" where
  "is_high c \<longleftrightarrow> 0xD800 \<le> c \<and> c \<le> 0xDBFF"

definition is_low :: "16 word \<Rightarrow> bool" where
  "is_low c \<longleftrightarrow> 0xDC00 \<le> c \<and> c \<le> 0xDFFF"

definition unreserved :: "16 word \<Rightarrow> bool" where
  "unreserved c \<longleftrightarrow>
     c \<in> set (js ''ABCDEFGHIJKLMNOPQRSTUVWXYZabcdefghijklmnopqrstuvwxyz0123456789-_.!~*()'')
     \<or> c = 0x27"

definition percent :: "nat \<Rightarrow> jsstring" where
  "percent b =
     js [CHR ''%'', ''0123456789ABCDEF'' ! (b div 16), ''0123456789ABCDEF'' ! (b mod 16)]"

definition utf8 :: "nat \<Rightarrow> nat list" where
  "utf8 cp =
     (if cp < 0x80 then [cp]
      else if cp < 0x800 then [0xC0 + cp div 64, 0x80 + cp mod 64]
      else if cp < 0x10000
        then [0xE0 + cp div 4096, 0x80 + cp div 64 mod 64, 0x80 + cp mod 64]
      else [0xF0 + cp div 262144, 0x80 + cp div 4096 mod 64, 0x80 + cp div 64 mod 64,
            0x80 + cp mod 64])"

definition pair_point :: "16 word \<Rightarrow> 16 word \<Rightarrow> nat" where
  "pair_point hi lo = (unat hi - 0xD800) * 0x400 + (unat lo - 0xDC00) + 0x10000"

fun encode :: "jsstring \<Rightarrow> jsstring option" where
  "encode [] = Some []"
| "encode (c # cs) =
     (if unreserved c then map_option (\<lambda>r. c # r) (encode cs)
      else if is_low c then None
      else if is_high c then
        (case cs of
           [] \<Rightarrow> None
         | d # ds \<Rightarrow>
             if is_low d
             then map_option (\<lambda>r. concat (map percent (utf8 (pair_point c d))) @ r) (encode ds)
             else None)
      else map_option (\<lambda>r. concat (map percent (utf8 (unat c))) @ r) (encode cs))"

definition encodeURIComponent :: "engine \<Rightarrow> jsval \<Rightarrow> js_error + jsstring" where
  "encodeURIComponent e v =
     (case encode (ToString e v) of
        None \<Rightarrow> Inl (URIError (uriErrorMessage e))
      | Some s \<Rightarrow> Inr s)"

text \<open>
  What \<^verbatim>\<open>for (const x of s)\<close> walks on a string: its code points, a pair of
  surrogates as one string of two code units.
\<close>

fun code_points :: "jsstring \<Rightarrow> jsstring list" where
  "code_points [] = []"
| "code_points [c] = [[c]]"
| "code_points (c # d # ds) =
     (if is_high c \<and> is_low d then [c, d] # code_points ds
      else [c] # code_points (d # ds))"

subsection \<open>The JSON client wrapper\<close>

text \<open>
  The same function in both scripts:
  \<^verbatim>\<open>
  async function fetchJSON(url, options){
    const res = await fetch(url, options);
    if (!res.ok){
      const t = await res.text().catch(()=> "");
      throw new Error(t || `Request failed: ${res.status}`);
    }
    return res.json();
  }
  \<close>
  A response carries its status, what reading its body as text gives and what parsing
  it as JSON gives; the argument of \<open>fetchJSON\<close> is what \<^verbatim>\<open>fetch(url, options)\<close>
  settles to.
\<close>

record response =
  status :: nat
  text_body :: "jsstring outcome"
  json_body :: "jsval outcome"

definition ok :: "response \<Rightarrow> bool" where
  "ok res \<longleftrightarrow> 200 \<le> status res \<and> status res \<le> 299"

definition fetchJSON :: "response outcome \<Rightarrow> jsval outcome" where
  "fetchJSON fetched =
     (case fetched of
        Pending \<Rightarrow> Pending
      | Rejected err \<Rightarrow> Rejected err
      | Fulfilled res \<Rightarrow>
          if \<not> ok res then
            (case (case text_body res of
                     Rejected err \<Rightarrow> Fulfilled []
                   | other \<Rightarrow> other) of
               Pending \<Rightarrow> Pending
             | Rejected err \<Rightarrow> Rejected err
             | Fulfilled t \<Rightarrow>
                 Rejected (Error (if t \<noteq> [] then t
                                  else js (''Request failed: '' @ decimal (status res)))))
          else json_body res)"

section \<open>search.js\<close>

subsection \<open>Snippet truncation\<close>

text \<open>
  \<^verbatim>\<open>
  const cutToWords = (text = "", maxWords = 100) => {
    const words = String(text).trim().split(/\s+/);
    return words.slice(0, maxWords).join(" ") + (words.length > maxWords ? "\<dots>" : "");
  };
  \<close>
  The marker is the one code unit U+2026. \<^verbatim>\<open>slice(0, n)\<close> counts a negative \<open>n\<close>
  from the end. \<open>text_arg\<close> is \<^verbatim>\<open>String(text)\<close> with the default of the parameter;
  every call of the script passes \<open>maxWords\<close>, an integer.
\<close>

definition ellipsis :: jsstring where
  "ellipsis = [0x2026]"

definition slice0 :: "'a list \<Rightarrow> int \<Rightarrow> 'a list" where
  "slice0 xs n = take (nat (if n < 0 then int (length xs) + n else n)) xs"

definition text_arg :: "engine \<Rightarrow> jsval \<Rightarrow> jsstring" where
  "text_arg e text = ToString e (if text = JUndefined then JStr [] else text)"

definition cutToWords :: "engine \<Rightarrow> jsval \<Rightarrow> int \<Rightarrow> jsstring" where
  "cutToWords e text maxWords =
     (let words = split_ws (trim (text_arg e text))
      in join (js '' '') (slice0 words maxWords)
         @ (if int (length words) > maxWords then ellipsis else []))"

subsection \<open>The page, as the script sees it\<close>

text \<open>
  A request as \<^verbatim>\<open>fetch\<close> receives it; the body is the value that the script passes
  through \<^verbatim>\<open>JSON.stringify\<close>. The server is what each request settles to.
\<close>

record request =
  req_url :: jsstring
  req_method :: string
  req_headers :: "(string \<times> string) list"
  req_body :: jsval

type_synonym server = "request \<Rightarrow> response outcome"

text \<open>One \<^verbatim>\<open><li class="result">\<close> of the email list of the thread view.\<close>

record email_item =
  item_summary :: jsstring
  item_content :: jsstring
  item_open :: bool

text \<open>
  The state that \<^verbatim>\<open>search.js\<close> reads and writes: the location, the history, the view
  containers of the page (\<^verbatim>\<open>#view-home\<close>, \<^verbatim>\<open>#view-results\<close>, \<^verbatim>\<open>#view-thread\<close>) and
  which of them is active, the elements of the results view (\<open>None\<close> for an element
  the page does not have), the elements of the thread view, the browser's
  \<^verbatim>\<open>localStorage\<close> (each value is the payload that the script serialises), the number
  of identifiers minted so far, and the requests issued so far.
\<close>

record page =
  origin :: jsstring
  pathname :: jsstring
  params :: "(jsstring \<times> jsstring) list"
  pushed :: "(jsstring \<times> jsstring) list list"
  views :: "string list"
  active_views :: "string list"
  home_query :: "jsstring option"
  home_focused :: bool
  results_query :: "jsstring option"
  results_summary :: "jsstring option"
  results_list :: "jsstring list option"
  thread_title :: jsstring
  thread_topic :: jsstring
  thread_detail1 :: jsstring
  thread_detail2 :: jsstring
  emails_list :: "email_item list"
  storage :: "(jsstring \<times> jsval) list"
  minted :: nat
  requests :: "request list"

text \<open>
  \<^verbatim>\<open>
  function show(view){
    $$(".view").forEach(v => v.classList.remove("active"));
    const el = $("#view-" + view);
    if (el) el.classList.add("active");
  }
  \<close>
\<close>

definition show_view :: "string \<Rightarrow> page \<Rightarrow> page" where
  "show_view view p = p\<lparr>active_views := (if view \<in> set (views p) then [view] else [])\<rparr>"

text \<open>
  \<^verbatim>\<open>try { localStorage.setItem(key, JSON.stringify(payload)); } catch (_) {}\<close>: the
  write replaces the entry of the key when the browser accepts it, and a write that
  throws leaves the store as it was.
\<close>

definition setItem :: "engine \<Rightarrow> jsstring \<Rightarrow> jsval \<Rightarrow> (jsstring \<times> jsval) list \<Rightarrow> js_error + (jsstring \<times> jsval) list" where
  "setItem e key v st =
     (if storageAccepts e st key v then Inr ((key, v) # filter (\<lambda>kv. fst kv \<noteq> key) st)
      else Inl (Error (js ''QuotaExceededError'')))"

definition try_setItem :: "engine \<Rightarrow> jsstring \<Rightarrow> jsval \<Rightarrow> (jsstring \<times> jsval) list \<Rightarrow> (jsstring \<times> jsval) list" where
  "try_setItem e key v st = (case setItem e key v st of Inl err \<Rightarrow> st | Inr st' \<Rightarrow> st')"

text \<open>\<^verbatim>\<open>s.split(/[\\/]/)\<close>: the pieces between the slashes and backslashes.\<close>

fun split_on :: "('a \<Rightarrow> bool) \<Rightarrow> 'a list \<Rightarrow> 'a list list" where
  "split_on sep [] = [[]]"
| "split_on sep (c # cs) =
     (if sep c then [] # split_on sep cs
      else (case split_on sep cs of [] \<Rightarrow> [[c]] | w # ws \<Rightarrow> (c # w) # ws))"

definition is_slash :: "16 word \<Rightarrow> bool" where
  "is_slash c \<longleftrightarrow> c = of_char CHR ''/'' \<or> c = 0x5C"

text \<open>
  \<^verbatim>\<open>v.split(/[\\/]/).pop()\<close>: only a string has the method; on any other value that
  passed the truthiness test the call throws.
\<close>

definition last_segment :: "engine \<Rightarrow> jsval \<Rightarrow> js_error + jsval" where
  "last_segment e v =
     (case v of
        JStr s \<Rightarrow> Inr (JStr (last (split_on is_slash s)))
      | other \<Rightarrow> Inl (TypeError (typeErrorMessage e ''split'')))"

subsection \<open>Results view\<close>

text \<open>
  The pills of a card.
  \<^verbatim>\<open>
  const scorePill = (typeof r.score === "number")
    ? `<span class="pill">score: ${Math.round(Number(r.score))}%</span>` : "";
  const emailsCount = (typeof r.emails_count === "number")
    ? r.emails_count
    : (Array.isArray(r.emails) ? r.emails.length : undefined);
  const emailsPill = (typeof emailsCount === "number")
    ? `<span class="pill">${emailsCount} email${emailsCount === 1 ? "" : "s"}</span>` : "";
  const pagePill = (r.page !== undefined && r.page !== null)
    ? `<span class="pill">page: ${String(r.page)}</span>` : "";
  \<close>
\<close>

definition scorePill :: "engine \<Rightarrow> jsval \<Rightarrow> jsstring" where
  \<open>scorePill e r =
     (case field r ''score'' of
        JNum x \<Rightarrow> concat [js ''<span class="pill">score: '', ToString e (JNum (Math_round x)),
                           js ''%</span>'']
      | other \<Rightarrow> [])\<close>

definition emailsCount :: "jsval \<Rightarrow> jsval" where
  "emailsCount r =
     (if isNumber (field r ''emails_count'') then field r ''emails_count''
      else if isArray (field r ''emails'') then JNum (of_nat (length (elems (field r ''emails''))))
      else JUndefined)"

definition emailsPill :: "engine \<Rightarrow> jsval \<Rightarrow> jsstring" where
  \<open>emailsPill e r =
     (if isNumber (emailsCount r)
      then concat [js ''<span class="pill">'', ToString e (emailsCount r), js '' email'',
                   (if emailsCount r = JNum 1 then [] else js ''s''), js ''</span>'']
      else [])\<close>

definition pagePill :: "engine \<Rightarrow> jsval \<Rightarrow> jsstring" where
  \<open>pagePill e r =
     (if \<not> nullish (field r ''page'')
      then concat [js ''<span class="pill">page: '', ToString e (field r ''page''), js ''</span>'']
      else [])\<close>

text \<open>
  The card of a thread hit (the value given to \<^verbatim>\<open>li.innerHTML\<close> in the branch
  \<^verbatim>\<open>if (r.thread_id)\<close>), with
  \<^verbatim>\<open>
  const tid = r.thread_id;
  const subject = r.subject || `Thread ${tid}`;
  const topicLine = r.topic ? `${r.topic}` : "(No Topic)";
  \<close>
  The one place of the card that can throw is \<^verbatim>\<open>encodeURIComponent(tid)\<close>, the first
  call of the template.
\<close>

definition topicLine :: "engine \<Rightarrow> jsval \<Rightarrow> jsstring" where
  "topicLine e r =
     (if truthy (field r ''topic'') then ToString e (field r ''topic'') else js ''(No Topic)'')"

definition threadHref :: "engine \<Rightarrow> page \<Rightarrow> jsval \<Rightarrow> js_error + jsstring" where
  "threadHref e p tid =
     (case encodeURIComponent e tid of
        Inl err \<Rightarrow> Inl err
      | Inr enc \<Rightarrow> Inr (concat [origin p, pathname p, js ''?mode=thread&id='', enc]))"

definition threadCard :: "engine \<Rightarrow> page \<Rightarrow> jsval \<Rightarrow> js_error + jsstring" where
  \<open>threadCard e p r =
     (let tid = field r ''thread_id'';
          subject = or_else (field r ''subject'') (JStr (js ''Thread '' @ ToString e tid))
      in case threadHref e p tid of
           Inl err \<Rightarrow> Inl err
         | Inr href \<Rightarrow> Inr (concat [
      js ''\<newline>            <a class="result-title"\<newline>              href="'',
      href,
      js ''" target="_blank" rel="noopener">\<newline>              '',
      safe e subject,
      js ''\<newline>            </a>\<newline>            <div class="result-meta">\<newline>              <span class="pill">'',
      safe e tid,
      js ''</span>\<newline>              '',
      scorePill e r,
      js ''\<newline>              '',
      emailsPill e r,
      js ''\<newline>            </div>\<newline>            <p class="result-snippet muted-text">'',
      safe e (JStr (cutToWords e (JStr (topicLine e r)) 60)),
      js ''</p>\<newline>          '']))\<close>

text \<open>
  The card of a document hit, for the title and the identifier computed before it:
  \<^verbatim>\<open>const title = r.doc_name || (r.doc_path.split(/[\\/]/).pop());\<close>
\<close>

definition docTitle :: "engine \<Rightarrow> jsval \<Rightarrow> js_error + jsval" where
  "docTitle e r =
     (if truthy (field r ''doc_name'') then Inr (field r ''doc_name'')
      else last_segment e (field r ''doc_path''))"

definition docCard :: "engine \<Rightarrow> jsval \<Rightarrow> jsval \<Rightarrow> string \<Rightarrow> js_error + jsstring" where
  \<open>docCard e r title docId =
     (case encodeURIComponent e (JStr (js docId)) of
        Inl err \<Rightarrow> Inl err
      | Inr enc \<Rightarrow> Inr (concat [
      js ''\<newline>            <a class="result-title"\<newline>              href="/doc?id='',
      enc,
      js ''"\<newline>              target="_blank" rel="noopener">\<newline>              '',
      safe e title,
      js ''\<newline>            </a>\<newline>            <div class="result-meta">\<newline>              '',
      scorePill e r,
      js ''\<newline>              '',
      pagePill e r,
      js ''\<newline>            </div>\<newline>            <p class="result-snippet">'',
      safe e (JStr (cutToWords e (or_else (field r ''paragraph'') (JStr [])) 80)),
      js ''</p>\<newline>            <p class="muted-text" style="margin-top:4px">'',
      safe e (field r ''doc_path''),
      js ''</p>\<newline>          '']))\<close>

text \<open>
  The staging record of a document hit:
  \<^verbatim>\<open>
  const payload = { doc_name: title, source: r.doc_path, page: r.page,
                    paragraph_index: r.paragraph_index, paragraph: r.paragraph || "" };
  \<close>
\<close>

definition docPayload :: "jsval \<Rightarrow> jsval \<Rightarrow> jsval" where
  "docPayload r title = JObj [
      (js ''doc_name'', title),
      (js ''source'', field r ''doc_path''),
      (js ''page'', field r ''page''),
      (js ''paragraph_index'', field r ''paragraph_index''),
      (js ''paragraph'', or_else (field r ''paragraph'') (JStr []))]"

definition docKey :: "string \<Rightarrow> jsstring" where
  "docKey docId = js ''docview:'' @ js docId"

text \<open>
  One turn of \<^verbatim>\<open>for (const r of hits)\<close>: the page after the turn, and the
  \<^verbatim>\<open>innerHTML\<close> given to the new \<^verbatim>\<open>li\<close> or the exception that leaves the loop.
  \<^verbatim>\<open>
  const li = document.createElement("li");
  if (r.thread_id) {
    ...
    li.innerHTML = `...`;
  } else if (r.doc_path) {
    const title = ...;
    const docId = (crypto.randomUUID && crypto.randomUUID()) || Math.random().toString(36).slice(2);
    const payload = {...};
    try { localStorage.setItem(`docview:${docId}`, JSON.stringify(payload)); } catch (_) {}
    li.innerHTML = `...`;
    listEl.appendChild(li);
  }
  \<close>
  \<^verbatim>\<open>appendChild\<close> stands in the document branch only.
\<close>

definition renderHit :: "engine \<Rightarrow> jsval \<Rightarrow> page \<Rightarrow> page \<times> (js_error + jsstring)" where
  "renderHit e r p =
     (case get e r ''thread_id'' of
        Inl err \<Rightarrow> (p, Inl err)
      | Inr tid \<Rightarrow>
          if truthy tid then (p, threadCard e p r)
          else if truthy (field r ''doc_path'') then
            (case docTitle e r of
               Inl err \<Rightarrow> (p, Inl err)
             | Inr title \<Rightarrow>
                 let docId = randomUUID e (minted p);
                     p1 = p\<lparr>minted := Suc (minted p),
                            storage := try_setItem e (docKey docId) (docPayload r title) (storage p)\<rparr>
                 in (case docCard e r title docId of
                       Inl err \<Rightarrow> (p1, Inl err)
                     | Inr li \<Rightarrow>
                         (p1\<lparr>results_list := map_option (\<lambda>l. l @ [li]) (results_list p1)\<rparr>,
                          Inr li)))
          else (p, Inr []))"

fun renderHits :: "engine \<Rightarrow> jsval list \<Rightarrow> page \<Rightarrow> page \<times> js_error option" where
  "renderHits e [] p = (p, None)"
| "renderHits e (r # rs) p =
     (case renderHit e r p of
        (p', Inl err) \<Rightarrow> (p', Some err)
      | (p', Inr li) \<Rightarrow> renderHits e rs p')"

text \<open>
  \<^verbatim>\<open>
  summaryEl.textContent = hits.length
    ? `${hits.length} matching result${hits.length > 1 ? "s" : ""}`
    : "No matching results found.";
  \<close>
\<close>

definition summaryLine :: "jsval list \<Rightarrow> jsstring" where
  "summaryLine hits =
     (if length hits \<noteq> 0
      then js (decimal (length hits)) @ js '' matching result''
           @ (if length hits > 1 then js ''s'' else [])
      else js ''No matching results found.'')"

definition lookupRequest :: "jsstring \<Rightarrow> request" where
  "lookupRequest query =
     \<lparr>req_url = js ''/lookup'', req_method = ''POST'',
      req_headers = [(''Content-Type'', ''application/json'')],
      req_body = JObj [(js ''query'', JStr query)]\<rparr>"

text \<open>\<^verbatim>\<open>if (summaryEl) summaryEl.textContent = `Error: ${err.message || String(err)}`;\<close>\<close>

definition showError :: "js_error \<Rightarrow> page \<Rightarrow> page" where
  "showError err p =
     p\<lparr>results_summary := map_option (\<lambda>old. js ''Error: '' @ error_text err) (results_summary p)\<rparr>"

text \<open>
  What \<^verbatim>\<open>showResults\<close> does once \<^verbatim>\<open>fetchJSON("/lookup", ...)\<close> has given \<open>data\<close>:
  \<^verbatim>\<open>
  const hits = Array.isArray(data.results) ? data.results : [];
  if (summaryEl) { summaryEl.textContent = ... }
  if (listEl){ for (const r of hits) { ... } }
  \<close>
  inside \<^verbatim>\<open>try { ... } catch (err) { ... }\<close>.
\<close>

definition hitsOf :: "jsval \<Rightarrow> jsval list" where
  "hitsOf results = (if isArray results then elems results else [])"

definition renderResults :: "engine \<Rightarrow> jsval \<Rightarrow> page \<Rightarrow> page" where
  "renderResults e data p =
     (case get e data ''results'' of
        Inl err \<Rightarrow> showError err p
      | Inr results \<Rightarrow>
          let hits = hitsOf results;
              p1 = p\<lparr>results_summary := map_option (\<lambda>old. summaryLine hits) (results_summary p)\<rparr>
          in if results_list p1 = None then p1
             else (case renderHits e hits p1 of
                     (p2, None) \<Rightarrow> p2
                   | (p2, Some err) \<Rightarrow> showError err p2))"

text \<open>
  \<^verbatim>\<open>
  async function showResults(query){
    if (!$("#view-results")) return;
    show(VIEWS.RESULTS);
    ...
    if (qInput) qInput.value = query;
    if (summaryEl) summaryEl.textContent = "Searching\<dots>";
    if (listEl) listEl.innerHTML = "";
    try {
      const data = await fetchJSON("/lookup", {...});
      ...
    } catch (err) {
      if (summaryEl) summaryEl.textContent = `Error: ${err.message || String(err)}`;
    }
  }
  \<close>
  The result is the page once the function has run as far as it ever will: when the
  request never settles, the page stays as it was when the request went out.
\<close>

definition showResults :: "engine \<Rightarrow> server \<Rightarrow> jsstring \<Rightarrow> page \<Rightarrow> page" where
  "showResults e srv query p =
     (if ''results'' \<notin> set (views p) then p
      else
        let p1 = show_view ''results'' p;
            p2 = p1\<lparr>results_query := map_option (\<lambda>old. query) (results_query p1),
                    results_summary :=
                      map_option (\<lambda>old. js ''Searching'' @ ellipsis) (results_summary p1),
                    results_list := map_option (\<lambda>old. []) (results_list p1)\<rparr>;
            p3 = p2\<lparr>requests := requests p2 @ [lookupRequest query]\<rparr>
        in (case fetchJSON (srv (lookupRequest query)) of
              Pending \<Rightarrow> p3
            | Rejected err \<Rightarrow> showError err p3
            | Fulfilled data \<Rightarrow> renderResults e data p3))"

subsection \<open>Thread view\<close>

text \<open>
  \<^verbatim>\<open>
  function pick(...vals){
    for (const v of vals) if (v !== undefined && v !== null && v !== "") return v;
    return undefined;
  }
  function formatRecipients(v){
    if (!v) return "";
    return Array.isArray(v) ? v.join(", ") : String(v);
  }
  function formatDateDisplay(s) {
    if (!s) return "No date";
    const d = new Date(s);
    if (Number.isNaN(d.getTime())) return s;
    return d.toLocaleString(undefined, {...});
  }
  \<close>
\<close>

fun pick :: "jsval list \<Rightarrow> jsval" where
  "pick [] = JUndefined"
| "pick (v # vals) = (if v \<noteq> JUndefined \<and> v \<noteq> JNull \<and> v \<noteq> JStr [] then v else pick vals)"

definition formatRecipients :: "engine \<Rightarrow> jsval \<Rightarrow> jsstring" where
  "formatRecipients e v =
     (if \<not> truthy v then []
      else if isArray v
        then join (js '', '') (map (\<lambda>x. if nullish x then [] else ToString e x) (elems v))
      else ToString e v)"

definition formatDateDisplay :: "engine \<Rightarrow> jsval \<Rightarrow> jsval" where
  "formatDateDisplay e s =
     (if \<not> truthy s then JStr (js ''No date'')
      else (case localeDate e s of None \<Rightarrow> s | Some shown \<Rightarrow> JStr shown))"

text \<open>
  \<^verbatim>\<open>
  function setBlock(id, label, text) {
    const el = document.querySelector(id);
    if (!el) return;
    if (text) { el.classList.add("multiline"); el.textContent = `${label}:\n${text}`; }
    else { el.textContent = ""; }
  }
  \<close>
  The text given to the element; the styling class is not part of the state.
\<close>

definition setBlock :: "engine \<Rightarrow> string \<Rightarrow> jsval \<Rightarrow> jsstring" where
  "setBlock e label text =
     (if truthy text then js label @ js '':\<newline>'' @ ToString e text else [])"

text \<open>
  The item appended for an email id, as the browser parses the markup given to
  \<^verbatim>\<open>li.innerHTML\<close>: a closed \<^verbatim>\<open>details\<close> element with its \<^verbatim>\<open>summary\<close> and its
  \<^verbatim>\<open>.email-content\<close>.
\<close>

definition placeholderItem :: "engine \<Rightarrow> jsval \<Rightarrow> email_item" where
  \<open>placeholderItem e eid =
     \<lparr>item_summary = concat [
        js ''\<newline>          <span class="email-header-line">Loading date'', ellipsis,
        js ''</span>\<newline>          <div class="email-meta"><span class="pill">'',
        safe e eid,
        js ''</span></div>\<newline>        ''],
      item_content = js ''Loading'' @ ellipsis,
      item_open = False\<rparr>\<close>

definition getRequest :: "jsstring \<Rightarrow> request" where
  "getRequest u = \<lparr>req_url = u, req_method = ''GET'', req_headers = [], req_body = JUndefined\<rparr>"

text \<open>
  The body of the \<^verbatim>\<open>try\<close> of one email, from the answer of \<^verbatim>\<open>/emails/:id\<close> to the
  two pieces of markup (for the \<^verbatim>\<open>summary\<close> and for the \<^verbatim>\<open>.email-content\<close>):
  \<^verbatim>\<open>
  const { data } = await fetchJSON(`/emails/${encodeURIComponent(eid)}`);
  const fromVal = pick(data.from, data.sender);
  const toVal   = pick(data.to, data.receiver);
  const ccVal   = pick(data.cc, data.ccs);
  const hdrs = [["Subject", data.subject], ["From", fromVal],
                ["To", formatRecipients(toVal)], ["Cc", formatRecipients(ccVal)]
               ].filter(([k,v]) => v);
  const headerHTML = hdrs.map(([k,v]) => `<div class="kv">...</div>`).join("");
  const body = data.text_body || data.body || data.snippet || "";
  const attachments = Array.isArray(data.attachments) ? data.attachments : [];
  const attachHTML = attachments.length ? `...` : "";
  const dateRaw = data.date || data.sent_at;
  const dateLabel = formatDateDisplay(dateRaw);
  \<close>
  Every exception of the body is raised before the first assignment to the item.
\<close>

definition headerHTML :: "engine \<Rightarrow> jsval \<Rightarrow> jsstring" where
  \<open>headerHTML e data =
     (let fromVal = pick [field data ''from'', field data ''sender''];
          toVal = pick [field data ''to'', field data ''receiver''];
          ccVal = pick [field data ''cc'', field data ''ccs''];
          hdrs = filter (\<lambda>(k, v). truthy v)
                   [(''Subject'', field data ''subject''),
                    (''From'', fromVal),
                    (''To'', JStr (formatRecipients e toVal)),
                    (''Cc'', JStr (formatRecipients e ccVal))]
      in concat (map (\<lambda>(k, v). concat [
           js ''<div class="kv"><span class="k">'', js k, js ''</span><span class="v">'',
           safe e (JStr (ToString e v)), js ''</span></div>'']) hdrs))\<close>

fun attachItems :: "engine \<Rightarrow> jsval list \<Rightarrow> js_error + jsstring" where
  "attachItems e [] = Inr []"
| "attachItems e (a # as) =
     (case get e a ''filename'' of
        Inl err \<Rightarrow> Inl err
      | Inr fname \<Rightarrow>
          (case attachItems e as of
             Inl err \<Rightarrow> Inl err
           | Inr later \<Rightarrow>
               Inr (concat [js ''<li>'',
                            safe e (or_else (or_else fname (field a ''name'')) (JStr (js ''file''))),
                            js ''</li>''] @ later)))"

definition attachHTML :: "engine \<Rightarrow> jsval \<Rightarrow> js_error + jsstring" where
  \<open>attachHTML e data =
     (let attachments = (if isArray (field data ''attachments'')
                         then elems (field data ''attachments'') else [])
      in if length attachments \<noteq> 0 then
           (case attachItems e attachments of
              Inl err \<Rightarrow> Inl err
            | Inr items \<Rightarrow> Inr (concat [
                js ''\<newline>        <div class="attachments">\<newline>          <h4>Attachments ('',
                js (decimal (length attachments)),
                js '')</h4>\<newline>          <ul>'',
                items,
                js ''</ul>\<newline>        </div>'']))
         else Inr [])\<close>

definition emailHTML :: "engine \<Rightarrow> jsval \<Rightarrow> jsval \<Rightarrow> js_error + (jsstring \<times> jsstring)" where
  \<open>emailHTML e eid resp =
     (case get e resp ''data'' of
        Inl err \<Rightarrow> Inl err
      | Inr data \<Rightarrow>
          (case get e data ''from'' of
             Inl err \<Rightarrow> Inl err
           | Inr from_field \<Rightarrow>
               (case attachHTML e data of
                  Inl err \<Rightarrow> Inl err
                | Inr attach \<Rightarrow>
                    let body = or_else (or_else (or_else (field data ''text_body'')
                                 (field data ''body'')) (field data ''snippet'')) (JStr []);
                        dateRaw = or_else (field data ''date'') (field data ''sent_at'');
                        dateLabel = formatDateDisplay e dateRaw
                    in Inr (concat [
                              js ''\<newline>        <span class="email-header-line">'',
                              safe e dateLabel,
                              js ''</span>\<newline>        <div class="email-meta"><span class="pill">'',
                              safe e eid,
                              js ''</span></div>\<newline>      ''],
                            concat [
                              js ''\<newline>        <div class="email-headers">'',
                              headerHTML e data,
                              js ''</div>\<newline>        <pre class="email-body">'',
                              safe e (JStr (ToString e body)),
                              js ''</pre>\<newline>        '',
                              attach,
                              js ''\<newline>      '']))))\<close>

text \<open>
  The two ways one email ends: its markup filled in, or
  \<^verbatim>\<open>li.querySelector(".email-content").textContent = "Failed to load email.";\<close>
  Both write to the item appended in this turn, the one at index \<open>i\<close>.
\<close>

definition fillItem :: "nat \<Rightarrow> jsstring \<times> jsstring \<Rightarrow> page \<Rightarrow> page" where
  "fillItem i html p =
     p\<lparr>emails_list := (emails_list p)[i := (emails_list p ! i)
          \<lparr>item_summary := fst html, item_content := snd html\<rparr>]\<rparr>"

definition failItem :: "nat \<Rightarrow> page \<Rightarrow> page" where
  "failItem i p =
     p\<lparr>emails_list := (emails_list p)[i := (emails_list p ! i)
          \<lparr>item_content := js ''Failed to load email.''\<rparr>]\<rparr>"

text \<open>
  The loop over the email ids:
  \<^verbatim>\<open>
  for (const eid of email_ids) {
    const li = document.createElement("li");
    li.className = "result";
    li.innerHTML = `...`;
    emailsUl.appendChild(li);
    try {
      const { data } = await fetchJSON(`/emails/${encodeURIComponent(eid)}`);
      ...
      summaryEl.innerHTML = `...`;
      li.querySelector(".email-content").innerHTML = `...`;
    } catch {
      li.querySelector(".email-content").textContent = "Failed to load email.";
    }
  }
  \<close>
  The \<^verbatim>\<open>await\<close> stands inside the loop: the next turn starts when the request of
  this one has settled, and never when it never settles. An id that
  \<^verbatim>\<open>encodeURIComponent\<close> refuses fails inside the \<^verbatim>\<open>try\<close> before any request.
\<close>

fun loadEmails :: "engine \<Rightarrow> server \<Rightarrow> jsval list \<Rightarrow> page \<Rightarrow> page" where
  "loadEmails e srv [] p = p"
| "loadEmails e srv (eid # rest) p =
     (let i = length (emails_list p);
          p1 = p\<lparr>emails_list := emails_list p @ [placeholderItem e eid]\<rparr>
      in (case encodeURIComponent e eid of
            Inl err \<Rightarrow> loadEmails e srv rest (failItem i p1)
          | Inr enc \<Rightarrow>
              let req = getRequest (js ''/emails/'' @ enc);
                  p2 = p1\<lparr>requests := requests p1 @ [req]\<rparr>
              in (case fetchJSON (srv req) of
                    Pending \<Rightarrow> p2
                  | Rejected err \<Rightarrow> loadEmails e srv rest (failItem i p2)
                  | Fulfilled resp \<Rightarrow>
                      (case emailHTML e eid resp of
                         Inl err \<Rightarrow> loadEmails e srv rest (failItem i p2)
                       | Inr html \<Rightarrow> loadEmails e srv rest (fillItem i html p2)))))"

text \<open>
  What \<^verbatim>\<open>for (const eid of email_ids)\<close> iterates, with the default
  \<^verbatim>\<open>email_ids = []\<close> of the destructuring: the elements of an array, the code points
  of a string; any other value is not iterable.
\<close>

definition iterate :: "engine \<Rightarrow> jsval \<Rightarrow> js_error + jsval list" where
  "iterate e v =
     (case v of
        JArr xs \<Rightarrow> Inr xs
      | JStr s \<Rightarrow> Inr (map JStr (code_points s))
      | other \<Rightarrow> Inl (TypeError (typeErrorMessage e ''Symbol.iterator'')))"

text \<open>
  \<^verbatim>\<open>
  async function showThread(threadId){
    if (!$("#view-thread")) return;
    if (!threadId) { show(VIEWS.HOME); return; }
    show(VIEWS.THREAD);
    $("#emails-list").innerHTML = "";
    $("#thread-title").textContent = "Loading\<dots>";
    $("#thread-topic").textContent = "";
    $("#thread-detail1").textContent = "";
    $("#thread-detail2").textContent = "";
    let threadResp;
    try {
      threadResp = await fetchJSON(`/threads/${encodeURIComponent(threadId)}`);
    } catch {
      $("#thread-title").textContent = "Thread not found";
      return;
    }
    const { topic, detail1, detail2, email_ids = [], subject: subjectFromThread } = threadResp;
    const subject = subjectFromThread || topic || `Thread ${threadId}`;
    $("#thread-title").textContent = subject;
    setBlock("#thread-topic", "Topic", topic);
    setBlock("#thread-detail1", "Summary", detail1);
    const emailsUl = $("#emails-list");
    for (const eid of email_ids) { ... }
    ...
  }
  \<close>
  The thread id is \<open>None\<close> for \<^verbatim>\<open>null\<close>. An exception outside the two \<^verbatim>\<open>try\<close>
  blocks ends the function where it is raised. The handlers of the two bulk controls,
  assigned after the loop, are the functions \<open>expandAll\<close> and \<open>collapseAll\<close> below.
\<close>

definition threadHeader :: "engine \<Rightarrow> jsstring \<Rightarrow> jsval \<Rightarrow> page \<Rightarrow> page" where
  "threadHeader e tid threadResp p =
     (let topic = field threadResp ''topic'';
          subject = or_else (or_else (field threadResp ''subject'') topic)
                      (JStr (js ''Thread '' @ tid))
      in p\<lparr>thread_title := ToString e subject,
            thread_topic := setBlock e ''Topic'' topic,
            thread_detail1 := setBlock e ''Summary'' (field threadResp ''detail1'')\<rparr>)"

definition showThread :: "engine \<Rightarrow> server \<Rightarrow> jsstring option \<Rightarrow> page \<Rightarrow> page" where
  "showThread e srv threadId p =
     (if ''thread'' \<notin> set (views p) then p
      else (case threadId of
              None \<Rightarrow> show_view ''home'' p
            | Some tid \<Rightarrow>
                if tid = [] then show_view ''home'' p
                else
                  let p1 = (show_view ''thread'' p)
                             \<lparr>emails_list := [], thread_title := js ''Loading'' @ ellipsis,
                              thread_topic := [], thread_detail1 := [], thread_detail2 := []\<rparr>
                  in (case encodeURIComponent e (JStr tid) of
                        Inl err \<Rightarrow> p1\<lparr>thread_title := js ''Thread not found''\<rparr>
                      | Inr enc \<Rightarrow>
                          let req = getRequest (js ''/threads/'' @ enc);
                              p2 = p1\<lparr>requests := requests p1 @ [req]\<rparr>
                          in (case fetchJSON (srv req) of
                                Pending \<Rightarrow> p2
                              | Rejected err \<Rightarrow> p2\<lparr>thread_title := js ''Thread not found''\<rparr>
                              | Fulfilled threadResp \<Rightarrow>
                                  if nullish threadResp then p2
                                  else
                                    let email_ids =
                                          (if field threadResp ''email_ids'' = JUndefined
                                           then JArr [] else field threadResp ''email_ids'');
                                        p3 = threadHeader e tid threadResp p2
                                    in (case iterate e email_ids of
                                          Inl err \<Rightarrow> p3
                                        | Inr ids \<Rightarrow> loadEmails e srv ids p3)))))"

text \<open>
  \<^verbatim>\<open>
  expandAll.onclick = () => $$("#emails-list details").forEach(d => d.open = true);
  collapseAll.onclick = () => $$("#emails-list details").forEach(d => d.open = false);
  \<close>
\<close>

definition expandAll :: "page \<Rightarrow> page" where
  "expandAll p = p\<lparr>emails_list := map (\<lambda>d. d\<lparr>item_open := True\<rparr>) (emails_list p)\<rparr>"

definition collapseAll :: "page \<Rightarrow> page" where
  "collapseAll p = p\<lparr>emails_list := map (\<lambda>d. d\<lparr>item_open := False\<rparr>) (emails_list p)\<rparr>"

subsection \<open>Routing and the two search forms\<close>

text \<open>\<^verbatim>\<open>url.searchParams.set(name, value)\<close>\<close>

fun params_set :: "jsstring \<Rightarrow> jsstring \<Rightarrow> (jsstring \<times> jsstring) list \<Rightarrow> (jsstring \<times> jsstring) list" where
  "params_set k v [] = [(k, v)]"
| "params_set k v (kv # ps) =
     (if fst kv = k then (k, v) # filter (\<lambda>kv'. fst kv' \<noteq> k) ps
      else kv # params_set k v ps)"

text \<open>
  \<^verbatim>\<open>
  function gotoResults(q){
    const url = new URL(location.href);
    url.searchParams.set("mode", VIEWS.RESULTS);
    url.searchParams.set("q", q);
    history.pushState({}, "", url);
    showResults(q);
  }
  function gotoThread(id){ ... }
  \<close>
\<close>

definition pushState :: "(jsstring \<times> jsstring) list \<Rightarrow> page \<Rightarrow> page" where
  "pushState ps p = p\<lparr>params := ps, pushed := pushed p @ [ps]\<rparr>"

definition gotoResults :: "engine \<Rightarrow> server \<Rightarrow> jsstring \<Rightarrow> page \<Rightarrow> page" where
  "gotoResults e srv q p =
     showResults e srv q
       (pushState (params_set (js ''q'') q (params_set (js ''mode'') (js ''results'') (params p))) p)"

definition gotoThread :: "engine \<Rightarrow> server \<Rightarrow> jsstring \<Rightarrow> page \<Rightarrow> page" where
  "gotoThread e srv tid p =
     showThread e srv (Some tid)
       (pushState (params_set (js ''id'') tid (params_set (js ''mode'') (js ''thread'') (params p))) p)"

text \<open>
  \<^verbatim>\<open>
  async function routeFromURL(){
    const qs = new URLSearchParams(location.search);
    const mode = qs.get("mode");
    if (mode === VIEWS.RESULTS) {
      const q = qs.get("q") || "";
      await showResults(q);
    } else if (mode === VIEWS.THREAD) {
      const id = qs.get("id");
      await showThread(id);
    } else if ($("#view-home")) {
      show(VIEWS.HOME);
      const homeInput = $("#home-query");
      if (homeInput) homeInput.focus();
    }
  }
  \<close>
\<close>

definition routeFromURL :: "engine \<Rightarrow> server \<Rightarrow> page \<Rightarrow> page" where
  "routeFromURL e srv p =
     (let mode = map_of (params p) (js ''mode'')
      in if mode = Some (js ''results'')
           then showResults e srv (case map_of (params p) (js ''q'') of None \<Rightarrow> [] | Some q \<Rightarrow> q) p
         else if mode = Some (js ''thread'')
           then showThread e srv (map_of (params p) (js ''id'')) p
         else if ''home'' \<in> set (views p)
           then (show_view ''home'' p)\<lparr>home_focused := (home_query p \<noteq> None)\<rparr>
         else p)"

text \<open>
  The submit handlers of \<^verbatim>\<open>#home-form\<close> and \<^verbatim>\<open>#results-form\<close>:
  \<^verbatim>\<open>
  homeForm.addEventListener("submit", (e) => {
    e.preventDefault();
    const q = $("#home-query").value.trim();
    if (!q) return;
    gotoResults(q);
  });
  \<close>
  and the same with \<^verbatim>\<open>#results-query\<close>. Without the input element the read of
  \<^verbatim>\<open>.value\<close> throws and the handler ends.
\<close>

definition homeSubmit :: "engine \<Rightarrow> server \<Rightarrow> page \<Rightarrow> page" where
  "homeSubmit e srv p =
     (case home_query p of
        None \<Rightarrow> p
      | Some v \<Rightarrow> let q = trim v in if q = [] then p else gotoResults e srv q p)"

definition resultsSubmit :: "engine \<Rightarrow> server \<Rightarrow> page \<Rightarrow> page" where
  "resultsSubmit e srv p =
     (case results_query p of
        None \<Rightarrow> p
      | Some v \<Rightarrow> let q = trim v in if q = [] then p else gotoResults e srv q p)"

section \<open>chat.js\<close>

text \<open>
  The transcript \<^verbatim>\<open>#chat-messages\<close> holds one item per message: the bubble of a user
  message, or the meta line and the content of an assistant message.
\<close>

datatype chat_msg = UserMsg jsstring | AssistantMsg jsstring jsstring

record chat =
  chat_origin :: jsstring
  chat_input :: jsstring
  chat_messages :: "chat_msg list"
  chat_storage :: "(jsstring \<times> jsval) list"
  chat_minted :: nat
  chat_requests :: "request list"

text \<open>\<^verbatim>\<open>const CONTEXT_MODE = "summary";\<close>\<close>

definition CONTEXT_MODE :: jsstring where
  "CONTEXT_MODE = js ''summary''"

text \<open>
  \<^verbatim>\<open>
  function threadUrl(threadId){
    return `${location.origin}/search?mode=thread&id=${encodeURIComponent(threadId)}`;
  }
  \<close>
\<close>

definition threadUrl :: "engine \<Rightarrow> chat \<Rightarrow> jsval \<Rightarrow> js_error + jsstring" where
  "threadUrl e c threadId =
     (case encodeURIComponent e threadId of
        Inl err \<Rightarrow> Inl err
      | Inr enc \<Rightarrow> Inr (concat [chat_origin c, js ''/search?mode=thread&id='', enc]))"

text \<open>
  \<^verbatim>\<open>addUserMessage(text)\<close> and \<^verbatim>\<open>addAssistantMessage(html, thinking)\<close> append an item,
  \<^verbatim>\<open>updateAssistantMessage(container, {html})\<close> replaces the content of one; the
  container is named by its index in the transcript.
\<close>

definition typing :: jsstring where
  \<open>typing = js ''<span class="typing" aria-label="Thinking"></span>''\<close>

definition addUserMessage :: "engine \<Rightarrow> jsstring \<Rightarrow> chat \<Rightarrow> chat" where
  "addUserMessage e txt c = c\<lparr>chat_messages := chat_messages c @ [UserMsg (safe e (JStr txt))]\<rparr>"

definition addAssistantMessage :: "jsstring \<Rightarrow> bool \<Rightarrow> chat \<Rightarrow> chat" where
  "addAssistantMessage html thinking c =
     c\<lparr>chat_messages := chat_messages c
          @ [AssistantMsg (js ''Vetus Assistant'') (if thinking then typing else html)]\<rparr>"

fun set_content :: "jsstring \<Rightarrow> chat_msg \<Rightarrow> chat_msg" where
  "set_content html (AssistantMsg meta content) = AssistantMsg meta html"
| "set_content html (UserMsg bubble) = UserMsg bubble"

fun set_meta :: "jsstring \<Rightarrow> chat_msg \<Rightarrow> chat_msg" where
  "set_meta html (AssistantMsg meta content) = AssistantMsg html content"
| "set_meta html (UserMsg bubble) = UserMsg bubble"

definition updateAssistantMessage :: "nat \<Rightarrow> jsstring \<Rightarrow> chat \<Rightarrow> chat" where
  "updateAssistantMessage i html c =
     c\<lparr>chat_messages := (chat_messages c)[i := set_content html (chat_messages c ! i)]\<rparr>"

definition updateMetaLine :: "nat \<Rightarrow> jsstring \<Rightarrow> chat \<Rightarrow> chat" where
  "updateMetaLine i html c =
     c\<lparr>chat_messages := (chat_messages c)[i := set_meta html (chat_messages c ! i)]\<rparr>"

text \<open>
  \<^verbatim>\<open>
  function buildRewritePrompt(query){
    return ["USER QUESTION:", query, "", "INSTRUCTIONS:",
      "- Rewrite the USER QUESTION above into a single, concise embedding search query.",
      "- Drop filler and verbose statements. Output only the query, no quotes."
    ].join("\n");
  }
  \<close>
\<close>

definition buildRewritePrompt :: "jsstring \<Rightarrow> jsstring" where
  "buildRewritePrompt query = join (js ''\<newline>'')
     [js ''USER QUESTION:'', query, [], js ''INSTRUCTIONS:'',
      js ''- Rewrite the USER QUESTION above into a single, concise embedding search query.'',
      js ''- Drop filler and verbose statements. Output only the query, no quotes.'']"

text \<open>
  \<^verbatim>\<open>
  function stripWrapperQuotes(s){
    const m = s.match(/^['"`](.*)['"`]$/);
    return m ? m[1] : s;
  }
  \<close>
  The pattern matches a text of two code units or more that starts and ends with a
  quote character and has no line terminator between them: the dot stops at a line
  feed, a carriage return, and the separators U+2028 and U+2029.
\<close>

definition is_quote :: "16 word \<Rightarrow> bool" where
  "is_quote c \<longleftrightarrow> c = 0x27 \<or> c = 0x22 \<or> c = 0x60"

definition is_line_break :: "16 word \<Rightarrow> bool" where
  "is_line_break c \<longleftrightarrow> c = 0x0A \<or> c = 0x0D \<or> c = 0x2028 \<or> c = 0x2029"

definition wrapped :: "jsstring \<Rightarrow> bool" where
  "wrapped s \<longleftrightarrow>
     2 \<le> length s \<and> is_quote (hd s) \<and> is_quote (last s)
     \<and> filter is_line_break (butlast (tl s)) = []"

definition stripWrapperQuotes :: "jsstring \<Rightarrow> jsstring" where
  "stripWrapperQuotes s = (if wrapped s then butlast (tl s) else s)"

text \<open>
  \<^verbatim>\<open>safe(answer).replace(/\n{2,}/g,"</p><p>").replace(/\n/g,"<br/>")\<close>: first every
  run of two or more line feeds, then every line feed that is left.
\<close>

function paragraphs :: "jsstring \<Rightarrow> jsstring" where
  "paragraphs [] = []"
| "paragraphs (c # cs) =
     (if c = 0x0A \<and> cs \<noteq> [] \<and> hd cs = 0x0A
      then js ''</p><p>'' @ paragraphs (dropWhile (\<lambda>d. d = 0x0A) cs)
      else c # paragraphs cs)"
  by pat_completeness auto
termination
  by (relation "measure length") (auto simp: length_dropWhile_le less_Suc_eq_le)

definition answerHTML :: "engine \<Rightarrow> jsstring \<Rightarrow> jsstring" where
  "answerHTML e answer = replace_char 0x0A (js ''<br/>'') (paragraphs (safe e (JStr answer)))"

text \<open>
  One source of the answer, the function given to \<^verbatim>\<open>sources.map\<close>:
  \<^verbatim>\<open>
  s => {
    if (!s.thread_id && (s.doc_path || s.paragraph)) {
      const id = (crypto.randomUUID && crypto.randomUUID()) || Math.random().toString(36).slice(2);
      const payload = {
        doc_name: s.doc_name || (s.doc_path ? s.doc_path.split(/[\\/]/).pop() : "Document"),
        source: s.doc_path, page: s.page, paragraph_index: s.paragraph_index,
        paragraph: s.paragraph || ""
      };
      try { localStorage.setItem(`docview:${id}`, JSON.stringify(payload)); } catch (_){}
      const label = payload.doc_name;
      const score = (typeof s.score === "number") ? ` (${Math.round(s.score)}%)` : "";
      const extra = (s.page !== undefined && s.page !== null) ? ` \<bullet> page ${s.page}` : "";
      return `<a class="pill" href="/doc?id=${id}" target="_blank" rel="noopener">${safe(label)}${score}${extra}</a>`;
    } else {
      return `
        <a class="pill" href="${threadUrl(s.thread_id)}" target="_blank" rel="noopener">
          ${safe(s.subject || s.topic || s.thread_id)}
          ${typeof s.score === "number" ? ` (${Math.round(s.score)}%)` : ""}
          ${typeof s.emails_count === "number" ? ` \<bullet> ${s.emails_count} email${s.emails_count === 1 ? "" : "s"}` : ""}
        </a>`;
    }
  }
  \<close>
  The bullet is the one code unit U+2022.
\<close>

definition bullet :: jsstring where
  "bullet = [0x2022]"

definition isDocSource :: "jsval \<Rightarrow> bool" where
  "isDocSource s \<longleftrightarrow>
     \<not> truthy (field s ''thread_id'')
     \<and> (truthy (field s ''doc_path'') \<or> truthy (field s ''paragraph''))"

definition sourceDocName :: "engine \<Rightarrow> jsval \<Rightarrow> js_error + jsval" where
  "sourceDocName e s =
     (if truthy (field s ''doc_name'') then Inr (field s ''doc_name'')
      else if truthy (field s ''doc_path'') then last_segment e (field s ''doc_path'')
      else Inr (JStr (js ''Document'')))"

definition sourceScore :: "engine \<Rightarrow> jsval \<Rightarrow> jsstring" where
  "sourceScore e s =
     (case field s ''score'' of
        JNum x \<Rightarrow> concat [js '' ('', ToString e (JNum (Math_round x)), js ''%)'']
      | other \<Rightarrow> [])"

definition sourceEmails :: "engine \<Rightarrow> jsval \<Rightarrow> jsstring" where
  "sourceEmails e s =
     (if isNumber (field s ''emails_count'')
      then concat [js '' '', bullet, js '' '', ToString e (field s ''emails_count''),
                   js '' email'', (if field s ''emails_count'' = JNum 1 then [] else js ''s'')]
      else [])"

definition sourceExtra :: "engine \<Rightarrow> jsval \<Rightarrow> jsstring" where
  "sourceExtra e s =
     (if \<not> nullish (field s ''page'')
      then concat [js '' '', bullet, js '' page '', ToString e (field s ''page'')]
      else [])"

definition docPill :: "engine \<Rightarrow> jsval \<Rightarrow> jsval \<Rightarrow> string \<Rightarrow> jsstring" where
  \<open>docPill e s label docId = concat [
      js ''<a class="pill" href="/doc?id='', js docId, js ''" target="_blank" rel="noopener">'',
      safe e label, sourceScore e s, sourceExtra e s, js ''</a>'']\<close>

definition threadPill :: "engine \<Rightarrow> chat \<Rightarrow> jsval \<Rightarrow> js_error + jsstring" where
  \<open>threadPill e c s =
     (case threadUrl e c (field s ''thread_id'') of
        Inl err \<Rightarrow> Inl err
      | Inr url \<Rightarrow> Inr (concat [
      js ''\<newline>                  <a class="pill" href="'',
      url,
      js ''" target="_blank" rel="noopener">\<newline>                    '',
      safe e (or_else (or_else (field s ''subject'') (field s ''topic'')) (field s ''thread_id'')),
      js ''\<newline>                    '',
      sourceScore e s,
      js ''\<newline>                    '',
      sourceEmails e s,
      js ''\<newline>                  </a>'']))\<close>

definition sourcePill :: "engine \<Rightarrow> jsval \<Rightarrow> chat \<Rightarrow> chat \<times> (js_error + jsstring)" where
  "sourcePill e s c =
     (case get e s ''thread_id'' of
        Inl err \<Rightarrow> (c, Inl err)
      | Inr tid \<Rightarrow>
          if isDocSource s then
            (let docId = randomUUID e (chat_minted c);
                 c1 = c\<lparr>chat_minted := Suc (chat_minted c)\<rparr>
             in (case sourceDocName e s of
                   Inl err \<Rightarrow> (c1, Inl err)
                 | Inr label \<Rightarrow>
                     (c1\<lparr>chat_storage :=
                           try_setItem e (docKey docId) (docPayload s label) (chat_storage c1)\<rparr>,
                      Inr (docPill e s label docId))))
          else (c, threadPill e c s))"

text \<open>\<^verbatim>\<open>sources.map(s => {...}).join("")\<close>, the sources taken in order.\<close>

fun sourcePills :: "engine \<Rightarrow> jsval list \<Rightarrow> chat \<Rightarrow> chat \<times> (js_error + jsstring)" where
  "sourcePills e [] c = (c, Inr [])"
| "sourcePills e (s # ss) c =
     (case sourcePill e s c of
        (c1, Inl err) \<Rightarrow> (c1, Inl err)
      | (c1, Inr html) \<Rightarrow>
          (case sourcePills e ss c1 of
             (c2, Inl err) \<Rightarrow> (c2, Inl err)
           | (c2, Inr later) \<Rightarrow> (c2, Inr (html @ later))))"

text \<open>
  \<^verbatim>\<open>
  const sourcesHTML = sources.length ? `
    <hr/>
    <div class="sources">
      <strong>Sources</strong>
      <div class="pill-list" style="display: flex; flex-direction: column; gap: 4px;">
        ${sources.map(s => {...}).join("")}
      </div>
    </div>` : "";
  \<close>
\<close>

definition sourcesHTML :: "engine \<Rightarrow> jsval list \<Rightarrow> chat \<Rightarrow> chat \<times> (js_error + jsstring)" where
  \<open>sourcesHTML e sources c =
     (if length sources \<noteq> 0 then
        (case sourcePills e sources c of
           (c1, Inl err) \<Rightarrow> (c1, Inl err)
         | (c1, Inr pills) \<Rightarrow> (c1, Inr (concat [
             js ''\<newline>        <hr/>\<newline>        <div class="sources">\<newline>          <strong>Sources</strong>\<newline>          <div class="pill-list" style="display: flex; flex-direction: column; gap: 4px;">\<newline>            '',
             pills,
             js ''\<newline>          </div>\<newline>        </div>''])))
      else (c, Inr []))\<close>

text \<open>The two requests of one submission.\<close>

definition askRequest :: "jsstring \<Rightarrow> request" where
  "askRequest val =
     \<lparr>req_url = js ''/ask'', req_method = ''POST'',
      req_headers = [(''Content-Type'', ''application/json'')],
      req_body = JObj [(js ''user_input'', JStr (buildRewritePrompt val)),
                       (js ''model_name'', JStr (js ''deepseek-r1-12k:8b'')),
                       (js ''use_chat'', JBool False)]\<rparr>"

definition ragRequest :: "jsstring \<Rightarrow> jsstring \<Rightarrow> request" where
  "ragRequest val used =
     \<lparr>req_url = js ''/ask-with-rag'', req_method = ''POST'',
      req_headers = [(''Content-Type'', ''application/json'')],
      req_body = JObj [(js ''user_input'', JStr val), (js ''query'', JStr used),
                       (js ''context_mode'', JStr CONTEXT_MODE)]\<rparr>"

text \<open>
  \<^verbatim>\<open>const used = stripWrapperQuotes(String(rewriteResp.answer || "").trim()) || val;\<close>
  for the answer field already read.
\<close>

definition resolveQuery :: "engine \<Rightarrow> jsval \<Rightarrow> jsstring \<Rightarrow> jsstring" where
  "resolveQuery e answer val =
     (let stripped = stripWrapperQuotes (trim (ToString e (or_else answer (JStr []))))
      in if stripped \<noteq> [] then stripped else val)"

definition metaLine :: "engine \<Rightarrow> jsstring \<Rightarrow> jsstring" where
  \<open>metaLine e used =
     concat [js ''Vetus Assistant '', bullet, js '' Query:<code>\<newline>'', safe e (JStr used),
             js ''</code>'']\<close>

text \<open>
  The second phase, from the answer of \<^verbatim>\<open>/ask-with-rag\<close> to the content of the
  placeholder:
  \<^verbatim>\<open>
  console.debug("...", resp.used_query);
  const sources = Array.isArray(resp.sources) ? resp.sources : [];
  const answer = String(resp.answer || "").trim();
  const sourcesHTML = ...;
  const html = `<p>${safe(answer).replace(...).replace(...)}</p>${sourcesHTML}`;
  thinkingEl.querySelector(".content").innerHTML = html;
  \<close>
  The result is the chat and the exception raised, if any.
\<close>

definition renderAnswer :: "engine \<Rightarrow> nat \<Rightarrow> jsval \<Rightarrow> chat \<Rightarrow> chat \<times> js_error option" where
  "renderAnswer e i resp c =
     (case get e resp ''used_query'' of
        Inl err \<Rightarrow> (c, Some err)
      | Inr used_query \<Rightarrow>
          let sources = (if isArray (field resp ''sources'') then elems (field resp ''sources'')
                         else []);
              answer = trim (ToString e (or_else (field resp ''answer'') (JStr [])))
          in (case sourcesHTML e sources c of
                (c1, Inl err) \<Rightarrow> (c1, Some err)
              | (c1, Inr shtml) \<Rightarrow>
                  (updateAssistantMessage i
                     (concat [js ''<p>'', answerHTML e answer, js ''</p>'', shtml]) c1, None)))"

text \<open>
  The \<^verbatim>\<open>try\<close> block of the submit handler once the rewritten answer is known
  (\<^verbatim>\<open>rewriteResp\<close> is the answer of \<^verbatim>\<open>/ask\<close>, or \<^verbatim>\<open>{ answer: val }\<close> after a failure):
  \<^verbatim>\<open>
  const used = stripWrapperQuotes(String(rewriteResp.answer || "").trim()) || val;
  thinkingEl.querySelector(".meta-line").innerHTML =
    `Vetus Assistant \<bullet> Query:<code>\n${safe(used)}</code>`;
  const context_mode = CONTEXT_MODE;
  const payload = { user_input: val, query: used, context_mode };
  const resp = await fetchJSON("/ask-with-rag", {...});
  ...
  \<close>
\<close>

definition askWithRag :: "engine \<Rightarrow> server \<Rightarrow> nat \<Rightarrow> jsstring \<Rightarrow> jsval \<Rightarrow> chat \<Rightarrow> chat \<times> js_error option" where
  "askWithRag e srv i val rewriteResp c =
     (case get e rewriteResp ''answer'' of
        Inl err \<Rightarrow> (c, Some err)
      | Inr answer \<Rightarrow>
          let used = resolveQuery e answer val;
              c1 = updateMetaLine i (metaLine e used) c;
              c2 = c1\<lparr>chat_requests := chat_requests c1 @ [ragRequest val used]\<rparr>
          in (case fetchJSON (srv (ragRequest val used)) of
                Pending \<Rightarrow> (c2, None)
              | Rejected err \<Rightarrow> (c2, Some err)
              | Fulfilled resp \<Rightarrow> renderAnswer e i resp c2))"

text \<open>
  The first phase:
  \<^verbatim>\<open>
  const rewritePrompt = buildRewritePrompt(val);
  let rewriteResp;
  try {
    rewriteResp = await fetchJSON("/ask", {...});
  } catch (_e) {
    // Fallback to original input if rewrite fails
    rewriteResp = { answer: val };
  }
  \<close>
\<close>

definition rewriteThenAsk :: "engine \<Rightarrow> server \<Rightarrow> nat \<Rightarrow> jsstring \<Rightarrow> chat \<Rightarrow> chat \<times> js_error option" where
  "rewriteThenAsk e srv i val c =
     (let c1 = c\<lparr>chat_requests := chat_requests c @ [askRequest val]\<rparr>
      in (case fetchJSON (srv (askRequest val)) of
            Pending \<Rightarrow> (c1, None)
          | Rejected err \<Rightarrow> askWithRag e srv i val (JObj [(js ''answer'', JStr val)]) c1
          | Fulfilled rewriteResp \<Rightarrow> askWithRag e srv i val rewriteResp c1))"

text \<open>
  The submit handler of \<^verbatim>\<open>#chat-form\<close>:
  \<^verbatim>\<open>
  form.addEventListener("submit", async (e) => {
    e.preventDefault();
    const val = input.value.trim();
    if (!val) return;
    input.value = "";
    addUserMessage(val);
    const thinkingEl = addAssistantMessage("", true);
    const content0 = `<span class="typing" aria-label="Thinking"></span>`;
    thinkingEl.querySelector(".content").innerHTML = content0;
    try {
      ...
    } catch (err) {
      updateAssistantMessage(thinkingEl, { html: `<p>Sorry, I hit an error: ${safe(err.message || String(err))}</p>` });
    }
  });
  \<close>
  The result is the chat once the handler has run as far as it ever will.
\<close>

definition errorHTML :: "engine \<Rightarrow> js_error \<Rightarrow> jsstring" where
  "errorHTML e err =
     concat [js ''<p>Sorry, I hit an error: '', safe e (JStr (error_text err)), js ''</p>'']"

definition chatSubmit :: "engine \<Rightarrow> server \<Rightarrow> chat \<Rightarrow> chat" where
  "chatSubmit e srv c =
     (let val = trim (chat_input c)
      in if val = [] then c
         else
           let c1 = addUserMessage e val (c\<lparr>chat_input := []\<rparr>);
               i = length (chat_messages c1);
               c2 = updateAssistantMessage i typing (addAssistantMessage [] True c1)
           in (case rewriteThenAsk e srv i val c2 of
                 (c3, None) \<Rightarrow> c3
               | (c3, Some err) \<Rightarrow> updateAssistantMessage i (errorHTML e err) c3))"

section \<open>What the specification says of the snippet\<close>




section \<open>Hits that the results loop renders\<close>




section \<open>Emails that the thread loop reaches\<close>







section \<open>Sample data\<close>

text \<open>
  An engine (no example prints a number that is not an integer; the messages of its
  exceptions are sample texts), a second engine whose
  browser refuses every write to the store, an empty page of the search application, an
  empty chat, the response that carries a JSON value with status 200, and the response
  that carries an error text.
\<close>

definition sample_engine :: engine where
  "sample_engine =
     \<lparr>numberText = (\<lambda>x. ''0.5''),
      typeErrorMessage =
        (\<lambda>p. if p = ''split'' then js ''split is not a function''
             else if p = ''Symbol.iterator'' then js ''email_ids is not iterable''
             else js (''Cannot read properties of null (reading '' @ p @ '')'')),
      uriErrorMessage = js ''URI malformed'',
      localeDate = (\<lambda>v. None),
      randomUUID = (\<lambda>n. ''id-'' @ decimal n),
      storageAccepts = (\<lambda>st key v. True)\<rparr>"


definition sample_page :: page where
  "sample_page =
     \<lparr>origin = js ''http://localhost'', pathname = js ''/search'', params = [], pushed = [],
      views = [''home'', ''results'', ''thread''], active_views = [''home''],
      home_query = Some [], home_focused = False,
      results_query = Some [], results_summary = Some [], results_list = Some [],
      thread_title = [], thread_topic = [], thread_detail1 = [], thread_detail2 = [],
      emails_list = [], storage = [], minted = 0, requests = []\<rparr>"

definition sample_chat :: chat where
  "sample_chat =
     \<lparr>chat_origin = js ''http://localhost'', chat_input = [], chat_messages = [],
      chat_storage = [], chat_minted = 0, chat_requests = []\<rparr>"

definition json_response :: "jsval \<Rightarrow> response outcome" where
  "json_response v = Fulfilled \<lparr>status = 200, text_body = Pending, json_body = Fulfilled v\<rparr>"

definition error_response :: "nat \<Rightarrow> string \<Rightarrow> response outcome" where
  "error_response code body =
     Fulfilled \<lparr>status = code, text_body = Fulfilled (js body),
                json_body = Rejected (SyntaxError (js ''Unexpected token''))\<rparr>"

text \<open>
  The thread hit and the document hit of the examples of the specification, and a
  source that has neither a thread id nor a path.
\<close>

definition budget_hit :: jsval where
  "budget_hit = JObj [(js ''thread_id'', JStr (js ''T1'')),
                      (js ''subject'', JStr (js ''Re: budget'')),
                      (js ''score'', JNum (876 / 10))]"



text \<open>Servers: one answer for every request; and those used by the examples.\<close>

definition always :: "jsval \<Rightarrow> server" where
  "always v req = json_response v"





definition rewrite_down :: server where
  "rewrite_down req =
     (if req_url req = js ''/ask'' then error_response 500 ''model not loaded'' else Pending)"

definition rewrite_blank :: server where
  "rewrite_blank req =
     (if req_url req = js ''/ask'' then json_response (JObj [(js ''answer'', JStr [0xA0, 0x20])])
      else Pending)"

definition rewrite_null :: server where
  "rewrite_null req = (if req_url req = js ''/ask'' then json_response JNull else Pending)"

text \<open>A quoted input: the text \<^verbatim>\<open>'hi'\<close> between two apostrophes.\<close>

definition quoted_hi :: jsstring where
  "quoted_hi = [0x27] @ js ''hi'' @ [0x27]"

section \<open>Literals and code units\<close>

text \<open>
  A literal of the theory has one code unit per character, each below 256, and two
  literals give the same string only when they are the same literal.
\<close>

lemma unat_of_char16: "unat (of_char c :: 16 word) = of_char c"
proof -
  have "(of_char c :: 16 word) = of_nat (of_char c)"
    by (simp only: of_nat_of_char)
  then have "unat (of_char c :: 16 word) = (of_char c :: nat) mod 2 ^ 16"
    by (simp only: unat_of_nat len_of_numeral_defs) simp
  moreover have "(of_char c :: nat) < 2 ^ 16"
    using nat_of_char_less_256 [of c] by (rule less_trans) simp
  ultimately show ?thesis by (simp only: mod_less)
qed

lemma of_char16_eq_iff [simp]: "(of_char c :: 16 word) = of_char d \<longleftrightarrow> c = d"
proof
  assume "(of_char c :: 16 word) = of_char d"
  then have "unat (of_char c :: 16 word) = unat (of_char d :: 16 word)" by simp
  then have "(of_char c :: nat) = of_char d" by (simp only: unat_of_char16)
  then show "c = d" by simp
qed simp

lemma js_Nil [simp]: "js [] = []"
  by (simp add: js_def)

lemma js_is_Nil [simp]: "js s = [] \<longleftrightarrow> s = []"
  by (simp add: js_def)




lemma js_eq_iff [simp]: "js s = js t \<longleftrightarrow> s = t"
proof -
  have "inj (of_char :: char \<Rightarrow> 16 word)"
    by (rule injI) (simp only: of_char16_eq_iff)
  then show ?thesis
    unfolding js_def by (rule inj_map_eq_map)
qed









section \<open>Words and white space\<close>











lemma space_ellipsis [simp]: "js '' '' = [0x20]" "ellipsis = [0x2026]"
  by (simp_all add: js_def ellipsis_def)


lemma trim_blank: "list_all is_space s \<Longrightarrow> trim s = []"
proof -
  assume "list_all is_space s"
  then have "dropWhile is_space s = []"
    by (simp only: list_all_iff dropWhile_eq_Nil_conv)
  then show ?thesis by (simp only: trim_def rev.simps dropWhile.simps)
qed

section \<open>The JSON client wrapper\<close>

text \<open>
  Claim C7. For a response with a non-success status, \<open>fetchJSON\<close> throws an error
  whose message is the text of the body when that text is not empty, and
  \<^verbatim>\<open>Request failed: <status>\<close> when the body is empty or cannot be read (the failure
  of the read is swallowed); for a response with a success status it returns what parsing
  the body as JSON gives.
\<close>

theorem fetchJSON_contract:
  "(\<not> ok res \<and> text_body res = Fulfilled t \<and> t \<noteq> []
      \<longrightarrow> fetchJSON (Fulfilled res) = Rejected (Error t))
   \<and> (\<not> ok res \<and> (text_body res = Fulfilled [] \<or> text_body res = Rejected err)
      \<longrightarrow> fetchJSON (Fulfilled res)
          = Rejected (Error (js (''Request failed: '' @ decimal (status res)))))
   \<and> (ok res \<longrightarrow> fetchJSON (Fulfilled res) = json_body res)"
  by (auto simp: fetchJSON_def)

text \<open>The contract at a 404 with a body, a 503 without, a 500 whose body cannot be read, and a 200.\<close>

theorem fetchJSON_contract_witness:
  "fetchJSON (error_response 404 ''no such thread'') = Rejected (Error (js ''no such thread''))
   \<and> fetchJSON (error_response 503 []) = Rejected (Error (js ''Request failed: 503''))
   \<and> fetchJSON (Fulfilled \<lparr>status = 500, text_body = Rejected (TypeError (js ''network error'')),
                             json_body = Pending\<rparr>)
       = Rejected (Error (js ''Request failed: 500''))
   \<and> fetchJSON (json_response (JObj [(js ''results'', JArr [])]))
       = Fulfilled (JObj [(js ''results'', JArr [])])"
  using fetchJSON_contract [of "\<lparr>status = 404, text_body = Fulfilled (js ''no such thread''),
                                 json_body = Rejected (SyntaxError (js ''Unexpected token''))\<rparr>"
                              "js ''no such thread''"]
        fetchJSON_contract [of "\<lparr>status = 503, text_body = Fulfilled [],
                                 json_body = Rejected (SyntaxError (js ''Unexpected token''))\<rparr>"]
        fetchJSON_contract [of "\<lparr>status = 500,
                                 text_body = Rejected (TypeError (js ''network error'')),
                                 json_body = Pending\<rparr>" _ "TypeError (js ''network error'')"]
        fetchJSON_contract [of "\<lparr>status = 200, text_body = Pending,
                                 json_body = Fulfilled (JObj [(js ''results'', JArr [])])\<rparr>"]
  by (simp add: error_response_def json_response_def ok_def decimal.simps)

section \<open>Snippet truncation\<close>










section \<open>Blank submissions\<close>

text \<open>
  Claim C8. Submitting an empty or white-space-only input changes nothing, at each of
  the three forms: the chat keeps its transcript (no user message, no placeholder), its
  input field and its list of requests, and the page of the home and results forms keeps
  its location, its history and its list of requests.
\<close>

theorem blank_submit_is_noop:
  "(list_all is_space (chat_input c) \<longrightarrow> chatSubmit e srv c = c)
   \<and> (home_query p = Some v \<and> list_all is_space v \<longrightarrow> homeSubmit e srv p = p)
   \<and> (results_query p = Some v \<and> list_all is_space v \<longrightarrow> resultsSubmit e srv p = p)"
  by (simp add: chatSubmit_def homeSubmit_def resultsSubmit_def trim_blank)

text \<open>
  A space, a no-break space and an ideographic space in the chat form, a tab, a line
  separator and a byte order mark in the home form, nothing in the results form.
\<close>

theorem blank_submit_is_noop_witness:
  "list_all is_space [0x20, 0xA0, 0x3000] \<and> list_all is_space [0x09, 0x2028, 0xFEFF]
   \<and> chatSubmit sample_engine rewrite_down (sample_chat\<lparr>chat_input := [0x20, 0xA0, 0x3000]\<rparr>)
       = sample_chat\<lparr>chat_input := [0x20, 0xA0, 0x3000]\<rparr>
   \<and> homeSubmit sample_engine rewrite_down
         (sample_page\<lparr>home_query := Some [0x09, 0x2028, 0xFEFF]\<rparr>)
       = sample_page\<lparr>home_query := Some [0x09, 0x2028, 0xFEFF]\<rparr>
   \<and> resultsSubmit sample_engine rewrite_down (sample_page\<lparr>results_query := Some []\<rparr>)
       = sample_page\<lparr>results_query := Some []\<rparr>"
  using blank_submit_is_noop [of "sample_chat\<lparr>chat_input := [0x20, 0xA0, 0x3000]\<rparr>"
          sample_engine rewrite_down
          "sample_page\<lparr>home_query := Some [0x09, 0x2028, 0xFEFF]\<rparr>" "[0x09, 0x2028, 0xFEFF]"]
        blank_submit_is_noop [of sample_chat sample_engine rewrite_down
          "sample_page\<lparr>results_query := Some []\<rparr>" "[]"]
  by (simp add: is_space_def)

section \<open>Thread hits in the results view\<close>

text \<open>
  Claim C1, at the hit \<^verbatim>\<open>{thread_id:"T1", subject:"Re: budget", score:87.6}\<close>. The
  card of the hit is built, with the link to \<^verbatim>\<open>?mode=thread&id=T1\<close> and the pill
  \<^verbatim>\<open>score: 88%\<close>, but it is never appended: the result list stays empty under the
  summary line \<^verbatim>\<open>1 matching result\<close>.
\<close>

theorem thread_hit_is_not_appended:
  \<open>results_list (showResults sample_engine (always (JObj [(js ''results'', JArr [budget_hit])]))
                   (js ''budget'') sample_page) = Some []
   \<and> results_summary (showResults sample_engine (always (JObj [(js ''results'', JArr [budget_hit])]))
                   (js ''budget'') sample_page) = Some (js ''1 matching result'')
   \<and> renderHit sample_engine budget_hit sample_page
       = (sample_page, threadCard sample_engine sample_page budget_hit)
   \<and> threadCard sample_engine sample_page budget_hit
       = Inr (js (''\<newline>            <a class="result-title"\<newline>              ''
                @ ''href="http://localhost/search?mode=thread&id=T1" target="_blank" rel="noopener">''
                @ ''\<newline>              Re: budget\<newline>            </a>''
                @ ''\<newline>            <div class="result-meta">''
                @ ''\<newline>              <span class="pill">T1</span>''
                @ ''\<newline>              <span class="pill">score: 88%</span>''
                @ ''\<newline>              \<newline>            </div>''
                @ ''\<newline>            <p class="result-snippet muted-text">(No Topic)</p>''
                @ ''\<newline>          ''))
   \<and> threadHref sample_engine sample_page (field budget_hit ''thread_id'')
       = Inr (js ''http://localhost/search?mode=thread&id=T1'')
   \<and> scorePill sample_engine budget_hit = js ''<span class="pill">score: 88%</span>''\<close>
  by code_simp

section \<open>The two requests of the chat\<close>

lemma sourcePill_requests: "chat_requests (fst (sourcePill e s c)) = chat_requests c"
  by (simp add: sourcePill_def Let_def split: sum.splits)

lemma sourcePills_requests: "chat_requests (fst (sourcePills e ss c)) = chat_requests c"
proof (induction ss arbitrary: c)
  case Nil
  then show ?case by simp
next
  case (Cons s ss)
  show ?case
    using sourcePill_requests [of e s c] Cons.IH [of "fst (sourcePill e s c)"]
    by (auto split: prod.splits sum.splits)
qed

lemma sourcesHTML_requests: "chat_requests (fst (sourcesHTML e ss c)) = chat_requests c"
  using sourcePills_requests [of e ss c]
  by (auto simp: sourcesHTML_def split: prod.splits sum.splits)

lemma renderAnswer_requests: "chat_requests (fst (renderAnswer e i resp c)) = chat_requests c"
proof -
  let ?ss = "if isArray (field resp ''sources'') then elems (field resp ''sources'') else []"
  from sourcesHTML_requests [of e ?ss c] show ?thesis
    by (auto simp: renderAnswer_def Let_def updateAssistantMessage_def split: prod.splits sum.splits)
qed

lemma askWithRag_requests:
  "\<not> nullish rewriteResp \<Longrightarrow>
     chat_requests (fst (askWithRag e srv i val rewriteResp c))
       = chat_requests c @ [ragRequest val (resolveQuery e (field rewriteResp ''answer'') val)]"
  using renderAnswer_requests
  by (auto simp: askWithRag_def get_def Let_def updateMetaLine_def split: outcome.splits)

lemma chatSubmit_requests:
  assumes "trim (chat_input c) = val" and "val \<noteq> []"
    and "fetchJSON (srv (askRequest val)) = Fulfilled resp \<and> \<not> nullish resp \<and> answer = field resp ''answer''
         \<or> (\<exists>err. fetchJSON (srv (askRequest val)) = Rejected err) \<and> answer = JStr val"
  shows "chat_requests (chatSubmit e srv c)
         = chat_requests c @ [askRequest val, ragRequest val (resolveQuery e answer val)]"
proof -
  let ?c1 = "addUserMessage e val (c\<lparr>chat_input := []\<rparr>)"
  let ?i = "length (chat_messages ?c1)"
  let ?c2 = "updateAssistantMessage ?i typing (addAssistantMessage [] True ?c1)"
  let ?c3 = "?c2\<lparr>chat_requests := chat_requests ?c2 @ [askRequest val]\<rparr>"
  have c3: "chat_requests ?c3 = chat_requests c @ [askRequest val]"
    by (simp add: updateAssistantMessage_def addAssistantMessage_def addUserMessage_def)
  have "\<exists>rr. \<not> nullish rr \<and> field rr ''answer'' = answer
          \<and> rewriteThenAsk e srv ?i val ?c2 = askWithRag e srv ?i val rr ?c3"
    using assms(3)
  proof (elim disjE conjE exE)
    assume "fetchJSON (srv (askRequest val)) = Fulfilled resp" "\<not> nullish resp"
      "answer = field resp ''answer''"
    then show ?thesis
      by (intro exI [of _ resp]) (simp add: rewriteThenAsk_def Let_def)
  next
    fix err
    assume "fetchJSON (srv (askRequest val)) = Rejected err" "answer = JStr val"
    then show ?thesis
      by (intro exI [of _ "JObj [(js ''answer'', JStr val)]"])
         (simp add: rewriteThenAsk_def Let_def)
  qed
  then obtain rr where rr: "\<not> nullish rr" "field rr ''answer'' = answer"
    and flow: "rewriteThenAsk e srv ?i val ?c2 = askWithRag e srv ?i val rr ?c3"
    by blast
  have "chat_requests (fst (rewriteThenAsk e srv ?i val ?c2))
          = chat_requests c @ [askRequest val, ragRequest val (resolveQuery e answer val)]"
    using askWithRag_requests [OF rr(1), of e srv ?i val ?c3] rr(2) c3 flow by simp
  then show ?thesis
    using assms(1,2)
    by (auto simp: chatSubmit_def Let_def updateAssistantMessage_def split: prod.splits option.splits)
qed

lemma stripWrapperQuotes_Nil: "stripWrapperQuotes [] = []"
  by (simp add: stripWrapperQuotes_def wrapped_def)

lemma stripWrapperQuotes_pair:
  "a \<in> {0x27, 0x22, 0x60} \<Longrightarrow> b \<in> {0x27, 0x22, 0x60} \<Longrightarrow> stripWrapperQuotes [a, b] = []"
  by (simp add: stripWrapperQuotes_def wrapped_def is_quote_def)

lemma fetchJSON_json_response: "fetchJSON (json_response v) = Fulfilled v"
  by (simp add: fetchJSON_def json_response_def ok_def)

lemma null_rewrite:
  assumes "trim (chat_input c) = val" and "val \<noteq> []"
    and "fetchJSON (srv (askRequest val)) = Fulfilled resp" and "nullish resp"
  shows "chatSubmit e srv c
         = c\<lparr>chat_input := [],
              chat_messages := chat_messages c
                @ [UserMsg (safe e (JStr val)),
                   AssistantMsg (js ''Vetus Assistant'')
                     (errorHTML e (TypeError (typeErrorMessage e ''answer'')))],
              chat_requests := chat_requests c @ [askRequest val]\<rparr>"
  using assms
  by (simp add: chatSubmit_def Let_def rewriteThenAsk_def askWithRag_def get_def
      addUserMessage_def addAssistantMessage_def updateAssistantMessage_def)

text \<open>
  Claim C9, amended. When the rewrite call succeeds with a response other than
  \<^verbatim>\<open>null\<close> whose answer is absent or otherwise falsy, is empty or white space only,
  or is a pair of quote characters once trimmed, the resolved query is the original input:
  the second request carries it as \<^verbatim>\<open>user_input\<close> and as \<^verbatim>\<open>query\<close>. When the
  rewrite call succeeds with \<^verbatim>\<open>null\<close>, there is no fallback: the handler shows the
  error of reading the answer and sends no second request.
\<close>

theorem empty_rewrite_falls_back:
  assumes "trim (chat_input c) = val" and "val \<noteq> []"
    and "fetchJSON (srv (askRequest val)) = Fulfilled resp"
  shows "(\<not> nullish resp
          \<and> (\<not> truthy (field resp ''answer'')
             \<or> list_all is_space (ToString e (field resp ''answer''))
             \<or> (\<exists>a b. a \<in> {0x27, 0x22, 0x60} \<and> b \<in> {0x27, 0x22, 0x60}
                     \<and> trim (ToString e (field resp ''answer'')) = [a, b]))
          \<longrightarrow> chat_requests (chatSubmit e srv c)
              = chat_requests c
                @ [askRequest val,
                   \<lparr>req_url = js ''/ask-with-rag'', req_method = ''POST'',
                    req_headers = [(''Content-Type'', ''application/json'')],
                    req_body = JObj [(js ''user_input'', JStr val), (js ''query'', JStr val),
                                     (js ''context_mode'', JStr (js ''summary''))]\<rparr>])
         \<and> (nullish resp
          \<longrightarrow> chat_requests (chatSubmit e srv c) = chat_requests c @ [askRequest val]
              \<and> chat_messages (chatSubmit e srv c)
                = chat_messages c
                  @ [UserMsg (safe e (JStr val)),
                     AssistantMsg (js ''Vetus Assistant'')
                       (js ''<p>Sorry, I hit an error: ''
                        @ safe e (JStr (if typeErrorMessage e ''answer'' \<noteq> []
                                         then typeErrorMessage e ''answer'' else js ''TypeError''))
                        @ js ''</p>'')])"
proof (intro conjI impI)
  assume a: "\<not> nullish resp
          \<and> (\<not> truthy (field resp ''answer'')
             \<or> list_all is_space (ToString e (field resp ''answer''))
             \<or> (\<exists>a b. a \<in> {0x27, 0x22, 0x60} \<and> b \<in> {0x27, 0x22, 0x60}
                     \<and> trim (ToString e (field resp ''answer'')) = [a, b]))"
  have "stripWrapperQuotes (trim (ToString e (or_else (field resp ''answer'') (JStr [])))) = []"
  proof (cases "truthy (field resp ''answer'')")
    case False
    then show ?thesis by (simp add: or_else_def trim_def stripWrapperQuotes_Nil)
  next
    case True
    with a consider "list_all is_space (ToString e (field resp ''answer''))"
      | a b where "a \<in> {0x27, 0x22, 0x60}" "b \<in> {0x27, 0x22, 0x60}"
          "trim (ToString e (field resp ''answer'')) = [a, b]"
      by blast
    then show ?thesis
    proof cases
      case 1
      with True show ?thesis by (simp add: or_else_def trim_blank stripWrapperQuotes_Nil)
    next
      case 2
      with True show ?thesis by (simp only: or_else_def if_True stripWrapperQuotes_pair)
    qed
  qed
  then have r: "resolveQuery e (field resp ''answer'') val = val"
    by (simp add: resolveQuery_def)
  from chatSubmit_requests [of c val srv resp "field resp ''answer''" e] assms a r
  show "chat_requests (chatSubmit e srv c)
              = chat_requests c
                @ [askRequest val,
                   \<lparr>req_url = js ''/ask-with-rag'', req_method = ''POST'',
                    req_headers = [(''Content-Type'', ''application/json'')],
                    req_body = JObj [(js ''user_input'', JStr val), (js ''query'', JStr val),
                                     (js ''context_mode'', JStr (js ''summary''))]\<rparr>]"
    by (simp add: ragRequest_def CONTEXT_MODE_def)
next
  assume n: "nullish resp"
  from null_rewrite [of c val srv resp e] assms n
  show "chat_requests (chatSubmit e srv c) = chat_requests c @ [askRequest val]"
    by simp
next
  assume n: "nullish resp"
  from null_rewrite [of c val srv resp e] assms n
  show "chat_messages (chatSubmit e srv c)
                = chat_messages c
                  @ [UserMsg (safe e (JStr val)),
                     AssistantMsg (js ''Vetus Assistant'')
                       (js ''<p>Sorry, I hit an error: ''
                        @ safe e (JStr (if typeErrorMessage e ''answer'' \<noteq> []
                                         then typeErrorMessage e ''answer'' else js ''TypeError''))
                        @ js ''</p>'')]"
    by (simp add: errorHTML_def error_text_def)
qed

text \<open>
  A rewrite that answers with a no-break space and a space, and one that answers with
  two quote characters around nothing.
\<close>

theorem empty_rewrite_falls_back_witness:
  "trim (js ''  refund policy? '') = js ''refund policy?''
   \<and> fetchJSON (rewrite_blank (askRequest (js ''refund policy?'')))
       = Fulfilled (JObj [(js ''answer'', JStr [0xA0, 0x20])])
   \<and> list_all is_space [0xA0, 0x20]
   \<and> chat_requests (chatSubmit sample_engine rewrite_blank
        (sample_chat\<lparr>chat_input := js ''  refund policy? ''\<rparr>))
       = [askRequest (js ''refund policy?''),
          ragRequest (js ''refund policy?'') (js ''refund policy?'')]
   \<and> chat_requests (chatSubmit sample_engine
          (always (JObj [(js ''answer'', JStr [0x20, 0x22, 0x27])]))
          (sample_chat\<lparr>chat_input := js ''refund policy?''\<rparr>))
       = [askRequest (js ''refund policy?''),
          ragRequest (js ''refund policy?'') (js ''refund policy?'')]"
proof -
  have t: "trim (chat_input (sample_chat\<lparr>chat_input := js ''  refund policy? ''\<rparr>))
             = js ''refund policy?''"
      "trim (chat_input (sample_chat\<lparr>chat_input := js ''refund policy?''\<rparr>))
             = js ''refund policy?''"
    by code_simp+
  have ne: "js ''refund policy?'' \<noteq> []" by simp
  have f: "fetchJSON (rewrite_blank (askRequest (js ''refund policy?'')))
             = Fulfilled (JObj [(js ''answer'', JStr [0xA0, 0x20])])"
    by (simp add: rewrite_blank_def askRequest_def fetchJSON_json_response)
  have g: "fetchJSON (always v (askRequest (js ''refund policy?''))) = Fulfilled v" for v
    by (simp add: always_def fetchJSON_json_response)
  have a: "\<not> nullish (JObj [(js ''answer'', JStr [0xA0, 0x20])])"
    "ToString sample_engine (field (JObj [(js ''answer'', JStr [0xA0, 0x20])]) ''answer'')
      = [0xA0, 0x20]"
    "list_all is_space [0xA0, 0x20]"
    by code_simp+
  have b: "\<not> nullish (JObj [(js ''answer'', JStr [0x20, 0x22, 0x27])])"
    "trim (ToString sample_engine (field (JObj [(js ''answer'', JStr [0x20, 0x22, 0x27])]) ''answer''))
      = [0x22, 0x27]"
    by code_simp+
  have rag: "\<lparr>req_url = js ''/ask-with-rag'', req_method = ''POST'',
                    req_headers = [(''Content-Type'', ''application/json'')],
                    req_body = JObj [(js ''user_input'', JStr val), (js ''query'', JStr val),
                                     (js ''context_mode'', JStr (js ''summary''))]\<rparr>
             = ragRequest val val" for val
    by (simp add: ragRequest_def CONTEXT_MODE_def)
  from empty_rewrite_falls_back [of "sample_chat\<lparr>chat_input := js ''  refund policy? ''\<rparr>"
      "js ''refund policy?''" rewrite_blank "JObj [(js ''answer'', JStr [0xA0, 0x20])]"
      sample_engine] t(1) ne f a
  have one: "chat_requests (chatSubmit sample_engine rewrite_blank
        (sample_chat\<lparr>chat_input := js ''  refund policy? ''\<rparr>))
       = [askRequest (js ''refund policy?''),
          ragRequest (js ''refund policy?'') (js ''refund policy?'')]"
    by (simp add: rag sample_chat_def)
  from empty_rewrite_falls_back [of "sample_chat\<lparr>chat_input := js ''refund policy?''\<rparr>"
      "js ''refund policy?''" "always (JObj [(js ''answer'', JStr [0x20, 0x22, 0x27])])"
      "JObj [(js ''answer'', JStr [0x20, 0x22, 0x27])]"
      sample_engine] t(2) ne g b
  have two: "chat_requests (chatSubmit sample_engine
          (always (JObj [(js ''answer'', JStr [0x20, 0x22, 0x27])]))
          (sample_chat\<lparr>chat_input := js ''refund policy?''\<rparr>))
       = [askRequest (js ''refund policy?''),
          ragRequest (js ''refund policy?'') (js ''refund policy?'')]"
    by (simp add: rag sample_chat_def)
  from t f a(3) one two show ?thesis by simp
qed

text \<open>
  The claim as it was stated fails when the rewrite call succeeds with the body
  \<^verbatim>\<open>null\<close>, a response without an answer: reading \<^verbatim>\<open>rewriteResp.answer\<close> throws, the
  assistant bubble shows the error, and no \<^verbatim>\<open>/ask-with-rag\<close> request is sent.
\<close>

theorem null_rewrite_shows_error:
  "fetchJSON (rewrite_null (askRequest (js ''refund policy?''))) = Fulfilled JNull
   \<and> chat_requests (chatSubmit sample_engine rewrite_null
        (sample_chat\<lparr>chat_input := js ''refund policy?''\<rparr>))
       = [askRequest (js ''refund policy?'')]
   \<and> chat_messages (chatSubmit sample_engine rewrite_null
        (sample_chat\<lparr>chat_input := js ''refund policy?''\<rparr>))
       = [UserMsg (js ''refund policy?''),
          AssistantMsg (js ''Vetus Assistant'')
            (js ''<p>Sorry, I hit an error: Cannot read properties of null (reading answer)</p>'')]"
  by code_simp

text \<open>
  Claim C5, at the input \<^verbatim>\<open>'hi'\<close> (the two letters between two apostrophes) when the
  rewrite call fails with status 500. The second request is sent and no error is
  shown, but the query it carries is \<^verbatim>\<open>hi\<close>, not the original input: the fallback
  value \<^verbatim>\<open>{ answer: val }\<close> goes through \<open>stripWrapperQuotes\<close> like an answer of the
  model.
\<close>

theorem quoted_input_is_stripped:
  "quoted_hi = [0x27, 0x68, 0x69, 0x27]
   \<and> fetchJSON (rewrite_down (askRequest quoted_hi)) = Rejected (Error (js ''model not loaded''))
   \<and> chat_requests (chatSubmit sample_engine rewrite_down (sample_chat\<lparr>chat_input := quoted_hi\<rparr>))
       = [askRequest quoted_hi,
          \<lparr>req_url = js ''/ask-with-rag'', req_method = ''POST'',
           req_headers = [(''Content-Type'', ''application/json'')],
           req_body = JObj [(js ''user_input'', JStr [0x27, 0x68, 0x69, 0x27]),
                            (js ''query'', JStr [0x68, 0x69]),
                            (js ''context_mode'', JStr (js ''summary''))]\<rparr>]
   \<and> chat_messages (chatSubmit sample_engine rewrite_down (sample_chat\<lparr>chat_input := quoted_hi\<rparr>))
       = [UserMsg [0x27, 0x68, 0x69, 0x27],
          AssistantMsg (js ''Vetus Assistant '' @ [0x2022] @ js '' Query:<code>\<newline>hi</code>'')
            (js ''<span class=\"typing\" aria-label=\"Thinking\"></span>'')]"
  by code_simp

section \<open>The summary line of the results view\<close>










section \<open>Staging records that cannot be written\<close>










section \<open>The sources of an answer\<close>





lemma field_nullish: "nullish s \<Longrightarrow> field s p = JUndefined"
  by (cases s) simp_all





section \<open>The emails of a thread\<close>



lemma fillItem_last:
  "fillItem (length (emails_list p)) html (p\<lparr>emails_list := emails_list p @ [item]\<rparr>)
   = p\<lparr>emails_list := emails_list p @ [item\<lparr>item_summary := fst html,
                                                item_content := snd html\<rparr>]\<rparr>"
  by (simp add: fillItem_def)









end
